theory Spec2Isabelle
  imports Complex_Main "HOL-Library.AList" "HOL-Library.Sublist"
begin

section \<open>Python values and exceptions\<close>

text \<open>
  Every \<^verbatim>\<open>raise\<close> of the source is a value \<open>Exc kind message\<close>; a function that can
  raise returns \<open>exn + 'a\<close> with \<open>Inl\<close> the exception. \<open>str_exn\<close> is Python's
  \<^verbatim>\<open>str(e)\<close>, which the source uses to wrap one exception into another.
\<close>

datatype exn_kind =
    AttributeError | TypeError | KeyError | IndexError | ValueError
  | ConfigValidationError | PreprocessingError | RuntimeError
  | FileNotFoundError | FileExistsError | IsADirectoryError | NotADirectoryError | OSError
  | UnpicklingError

datatype exn = Exc exn_kind string

fun str_exn :: "exn \<Rightarrow> string" where
  "str_exn (Exc k m) = m"

text \<open>
  Plain Python values: what \<^verbatim>\<open>yaml.safe_load\<close> and \<^verbatim>\<open>json.load\<close> return and what
  the state dicts of the classes hold. A dict is an association list with distinct
  keys in insertion order; \<open>AList.update\<close> is Python's \<^verbatim>\<open>d[k] = v\<close> (in place
  when the key is there, appended otherwise).
\<close>

datatype pyval =
    PNone | PBool bool | PInt int | PFloat rat | PStr string
  | PList "pyval list" | PDict "(string \<times> pyval) list"

text \<open>Python's truth value of a plain value, as \<^verbatim>\<open>if not x\<close> reads it.\<close>

fun truthy :: "pyval \<Rightarrow> bool" where
  "truthy PNone = False"
| "truthy (PBool b) = b"
| "truthy (PInt i) = (i \<noteq> 0)"
| "truthy (PFloat r) = (r \<noteq> 0)"
| "truthy (PStr s) = (s \<noteq> [])"
| "truthy (PList xs) = (xs \<noteq> [])"
| "truthy (PDict kv) = (kv \<noteq> [])"

text \<open>\<^verbatim>\<open>d.get(k)\<close>, \<^verbatim>\<open>d[k]\<close> and \<^verbatim>\<open>d[k] = v\<close> on a value that should be a dict.\<close>

fun py_get :: "pyval \<Rightarrow> string \<Rightarrow> exn + pyval" where
  "py_get (PDict kv) k = Inr (case map_of kv k of None \<Rightarrow> PNone | Some v \<Rightarrow> v)"
| "py_get _ k = Inl (Exc AttributeError ''object has no attribute get'')"

fun py_index :: "pyval \<Rightarrow> string \<Rightarrow> exn + pyval" where
  "py_index (PDict kv) k =
     (case map_of kv k of None \<Rightarrow> Inl (Exc KeyError (CHR 0x27 # k @ [CHR 0x27])) | Some v \<Rightarrow> Inr v)"
| "py_index _ k = Inl (Exc TypeError ''indices must be integers'')"

fun py_setitem :: "pyval \<Rightarrow> string \<Rightarrow> pyval \<Rightarrow> exn + pyval" where
  "py_setitem (PDict kv) k v = Inr (PDict (AList.update k v kv))"
| "py_setitem _ k v = Inl (Exc TypeError ''object does not support item assignment'')"

section \<open>Config provider (config/model\_config.py)\<close>

fun is_dict :: "pyval \<Rightarrow> bool" where
  "is_dict (PDict kv) = True"
| "is_dict _ = False"

text \<open>
  \<^verbatim>\<open>_merge_configs(base, override)\<close>:
  \<^verbatim>\<open>merged = base.copy()\<close> raises AttributeError unless \<open>base\<close> is a dict or a list;
  \<^verbatim>\<open>override.items()\<close> raises AttributeError unless \<open>override\<close> is a dict. When
  \<open>merged\<close> is a list, the loop body raises TypeError at the first item (a list is
  neither indexed nor assigned by a string key).
\<close>

fun merge_configs :: "pyval \<Rightarrow> pyval \<Rightarrow> exn + pyval"
  and merge_items :: "(string \<times> pyval) list \<Rightarrow> (string \<times> pyval) list \<Rightarrow> exn + (string \<times> pyval) list"
where
  "merge_configs (PDict b) (PDict ov) =
     (case merge_items b ov of Inl e \<Rightarrow> Inl e | Inr m \<Rightarrow> Inr (PDict m))"
| "merge_configs (PList xs) (PDict ov) =
     (if ov = [] then Inr (PList xs)
      else Inl (Exc TypeError ''list indices must be integers or slices, not str''))"
| "merge_configs (PDict b) _ = Inl (Exc AttributeError ''items'')"
| "merge_configs (PList xs) _ = Inl (Exc AttributeError ''items'')"
| "merge_configs _ _ = Inl (Exc AttributeError ''copy'')"
| "merge_items merged [] = Inr merged"
| "merge_items merged ((key, value) # rest) =
     (if is_dict value \<and> map_of merged key \<noteq> None
      then (case map_of merged key of
              None \<Rightarrow> Inl (Exc KeyError key)
            | Some bv \<Rightarrow>
                (case merge_configs bv value of
                   Inl e \<Rightarrow> Inl e
                 | Inr v' \<Rightarrow> merge_items (AList.update key v' merged) rest))
      else merge_items (AList.update key value merged) rest)"

text \<open>The four model types, with the constants each getter and validator uses.\<close>

datatype model_kind = Recommendation | Nlp | Sentiment | Anomaly

fun cache_key :: "model_kind \<Rightarrow> string" where
  "cache_key Recommendation = ''recommendation''"
| "cache_key Nlp = ''nlp''"
| "cache_key Sentiment = ''sentiment''"
| "cache_key Anomaly = ''anomaly''"

fun section_name :: "model_kind \<Rightarrow> string" where
  "section_name Recommendation = ''recommendation_model''"
| "section_name Nlp = ''nlp_model''"
| "section_name Sentiment = ''sentiment_model''"
| "section_name Anomaly = ''anomaly_model''"

fun required_keys :: "model_kind \<Rightarrow> string list" where
  "required_keys Recommendation = [''model_architecture'', ''hyperparameters'', ''training_settings'']"
| "required_keys Nlp = [''model_architecture'', ''tokenizer_settings'', ''training_parameters'']"
| "required_keys Sentiment = [''model_settings'', ''quantization_parameters'', ''inference_settings'']"
| "required_keys Anomaly = [''algorithm_settings'', ''detection_thresholds'', ''update_frequency'']"

fun config_label :: "model_kind \<Rightarrow> string" where
  "config_label Recommendation = ''recommendation''"
| "config_label Nlp = ''NLP''"
| "config_label Sentiment = ''sentiment''"
| "config_label Anomaly = ''anomaly''"

text \<open>
  \<^verbatim>\<open>key in config\<close>: key membership for a dict, element membership for a list,
  substring for a string, TypeError for the other scalars.
\<close>

fun py_contains :: "pyval \<Rightarrow> string \<Rightarrow> exn + bool" where
  "py_contains (PDict kv) key = Inr (map_of kv key \<noteq> None)"
| "py_contains (PList xs) key = Inr (PStr key \<in> set xs)"
| "py_contains (PStr s) key = Inr (sublist key s)"
| "py_contains _ key = Inl (Exc TypeError ''argument is not iterable'')"

text \<open>
  \<^verbatim>\<open>all(key in config for key in required_keys)\<close>: stops at the first key that is
  not there, raises where the membership test raises.
\<close>

fun all_in :: "pyval \<Rightarrow> string list \<Rightarrow> exn + bool" where
  "all_in config [] = Inr True"
| "all_in config (k # ks) =
     (case py_contains config k of
        Inl e \<Rightarrow> Inl e
      | Inr False \<Rightarrow> Inr False
      | Inr True \<Rightarrow> all_in config ks)"

text \<open>
  The \<^verbatim>\<open>repr\<close> of a set of strings, as the f-string of the message prints it:
  \<^verbatim>\<open>{'a', 'b', 'c'}\<close>. Python leaves the order of a set's elements open; the
  model prints them in the order of the source's set literal.
\<close>

definition quote :: "string \<Rightarrow> string" where
  "quote k = [CHR 0x27] @ k @ [CHR 0x27]"

fun join_comma :: "string list \<Rightarrow> string" where
  "join_comma [] = []"
| "join_comma [k] = k"
| "join_comma (k # ks) = k @ '', '' @ join_comma ks"

definition repr_set :: "string list \<Rightarrow> string" where
  "repr_set ks = ''{'' @ join_comma (map quote ks) @ ''}''"

definition missing_message :: "model_kind \<Rightarrow> string" where
  "missing_message kind =
     ''Missing required keys in '' @ config_label kind @ '' config: '' @ repr_set (required_keys kind)"

definition validate_config :: "model_kind \<Rightarrow> pyval \<Rightarrow> exn + unit" where
  "validate_config kind config =
     (case all_in config (required_keys kind) of
        Inl e \<Rightarrow> Inl e
      | Inr True \<Rightarrow> Inr ()
      | Inr False \<Rightarrow> Inl (Exc ConfigValidationError (missing_message kind)))"

record ModelConfig =
  env :: string
  config :: pyval
  cache :: "(string \<times> pyval) list"

text \<open>\<^verbatim>\<open>self.config.get(name, {})\<close>.\<close>

fun dict_get_default :: "pyval \<Rightarrow> string \<Rightarrow> exn + pyval" where
  "dict_get_default (PDict kv) name =
     Inr (case map_of kv name of None \<Rightarrow> PDict [] | Some v \<Rightarrow> v)"
| "dict_get_default _ name = Inl (Exc AttributeError ''get'')"

text \<open>
  The four getters \<^verbatim>\<open>get_recommendation_config\<close>, \<^verbatim>\<open>get_nlp_config\<close>,
  \<^verbatim>\<open>get_sentiment_config\<close> and \<^verbatim>\<open>get_anomaly_config\<close> are one body with the
  constants above; they return the configuration and the provider with its cache
  filled.
\<close>

definition get_config :: "model_kind \<Rightarrow> ModelConfig \<Rightarrow> exn + (pyval \<times> ModelConfig)" where
  "get_config kind mc =
     (case map_of (cache mc) (cache_key kind) of
        Some c \<Rightarrow> Inr (c, mc)
      | None \<Rightarrow>
          (case dict_get_default (config mc) (section_name kind) of
             Inl e \<Rightarrow> Inl e
           | Inr c \<Rightarrow>
               (case validate_config kind c of
                  Inl e \<Rightarrow> Inl e
                | Inr u \<Rightarrow>
                    Inr (c, mc\<lparr>cache := AList.update (cache_key kind) c (cache mc)\<rparr>))))"

definition get_recommendation_config :: "ModelConfig \<Rightarrow> exn + (pyval \<times> ModelConfig)" where
  "get_recommendation_config = get_config Recommendation"

text \<open>The required keys a configuration lacks, and the keys a message names.\<close>

definition absent_keys :: "model_kind \<Rightarrow> (string \<times> pyval) list \<Rightarrow> string list" where
  "absent_keys kind kv = filter (\<lambda>k. map_of kv k = None) (required_keys kind)"

definition named_keys :: "model_kind \<Rightarrow> string \<Rightarrow> string list" where
  "named_keys kind msg = filter (\<lambda>k. sublist (quote k) msg) (required_keys kind)"


text \<open>
  The claim's words for one key \<open>k\<close> of the merged mapping \<open>m\<close>: a key of the
  override whose value is a dict and that the base has too holds the recursive merge of
  the two values; any other key of the override holds the override's value; a key of
  the base alone keeps the base's value.
\<close>

definition merged_entry ::
  "(string \<times> pyval) list \<Rightarrow> (string \<times> pyval) list \<Rightarrow> (string \<times> pyval) list \<Rightarrow> string \<Rightarrow> bool" where
  "merged_entry b ov m k =
     (case map_of ov k of
        None \<Rightarrow> map_of m k = map_of b k
      | Some v \<Rightarrow>
          (case map_of b k of
             None \<Rightarrow> map_of m k = Some v
           | Some bv \<Rightarrow>
               if is_dict v then (\<exists>r. merge_configs bv v = Inr r \<and> map_of m k = Some r)
               else map_of m k = Some v))"

text \<open>Some recursive merge of a shared key raises (its base value is a scalar, say).\<close>

definition nested_fails :: "(string \<times> pyval) list \<Rightarrow> (string \<times> pyval) list \<Rightarrow> bool" where
  "nested_fails b ov =
     (\<exists>k v bv. map_of ov k = Some v \<and> is_dict v \<and> map_of b k = Some bv
        \<and> isl (merge_configs bv v))"

definition mc_partial :: ModelConfig where
  "mc_partial = \<lparr>env = ''development'',
     config = PDict [(''recommendation_model'',
        PDict [(''model_architecture'', PDict []), (''hyperparameters'', PDict [])])],
     cache = []\<rparr>"

section \<open>Feature preprocessor (utils/data\_preprocessor.py)\<close>

text \<open>
  Tabular and text input. A frame is a list of labelled columns; a cell is a number, a
  string or a missing value. An input carries its runtime container type, which the
  source inspects with \<^verbatim>\<open>isinstance\<close>; \<^verbatim>\<open>pd.DataFrame(data)\<close> and
  \<^verbatim>\<open>np.array(data)\<close> change the container and keep the content.
\<close>

datatype cell = Num real | Txt string | Missing

datatype label = Name string | Pos nat

type_synonym frame = "(label \<times> cell list) list"

datatype pyinput = ListIn frame | ArrayIn frame | FrameIn frame | OtherIn

type_synonym matrix = "real list list"

fun content :: "pyinput \<Rightarrow> frame" where
  "content (ListIn f) = f"
| "content (ArrayIn f) = f"
| "content (FrameIn f) = f"
| "content OtherIn = []"

definition nrows :: "frame \<Rightarrow> nat" where
  "nrows f = (case f of [] \<Rightarrow> 0 | (l, col) # rest \<Rightarrow> length col)"

definition NUMERICAL_FEATURES :: "string list" where
  "NUMERICAL_FEATURES = [''budget'', ''duration'', ''group_size'']"

definition CATEGORICAL_FEATURES :: "string list" where
  "CATEGORICAL_FEATURES = [''destination_type'', ''travel_style'', ''accommodation_type'']"

definition MAX_SEQUENCE_LENGTH :: nat where
  "MAX_SEQUENCE_LENGTH = 512"

definition MAX_VOCAB_SIZE :: nat where
  "MAX_VOCAB_SIZE = 10000"

text \<open>
  The fitted parameters of the scikit-learn and Keras transformers: \<open>None\<close> before
  fitting. What fitting computes and how a fitted transformer maps its input is the
  library's business: the record \<open>collaborators\<close> holds those functions, and every
  function of the model that calls the libraries takes it as its first argument.
\<close>

datatype scaler = StandardScaler "(real \<times> real) list option" | MinMaxScaler "(real \<times> real) list option"

datatype encoder = LabelEncoder "cell list option"

datatype tokenizer = Tokenizer nat "(string \<times> nat) list option"

type_synonym weights = "real list"

type_synonym history = "(string \<times> real list) list"

datatype ndarray = A1 "real list" | A2 "real list list"

record transformers =
  numerical :: scaler
  categorical :: "(string \<times> encoder) list"
  text_tokenizer :: "tokenizer option"

record collaborators =
  scaler_fit :: "scaler \<Rightarrow> frame \<Rightarrow> exn + scaler"
  scaler_transform :: "scaler \<Rightarrow> frame \<Rightarrow> exn + matrix"
  encoder_fit :: "encoder \<Rightarrow> cell list \<Rightarrow> exn + encoder"
  encoder_transform :: "encoder \<Rightarrow> cell list \<Rightarrow> exn + real list"
  fit_on_texts :: "tokenizer \<Rightarrow> pyinput \<Rightarrow> exn + tokenizer"
  texts_to_sequences :: "tokenizer \<Rightarrow> pyinput \<Rightarrow> exn + nat list list"
  column_summary :: "cell list \<Rightarrow> exn + pyval"
  tobytes_hash :: "frame \<Rightarrow> int"
  keras_fit :: "weights \<Rightarrow> matrix \<Rightarrow> ndarray \<Rightarrow> nat \<Rightarrow> nat \<Rightarrow> exn + (history \<times> weights)"
  persona_forward :: "weights \<Rightarrow> real list \<Rightarrow> exn + (real list \<times> real)"

record DataPreprocessor =
  dp_model_type :: model_kind
  dp_env :: string
  preprocessor_state :: pyval
  dp_transformers :: transformers
  dp_cache :: pyval

text \<open>
  \<^verbatim>\<open>__init__\<close> and \<^verbatim>\<open>_initialize_model_specific_components\<close>, for a supported model
  type (\<open>model_kind\<close> has no other) and a configuration that loads; \<open>now\<close> is the
  clock's \<^verbatim>\<open>datetime.utcnow().isoformat()\<close>.
\<close>

fun model_type_name :: "model_kind \<Rightarrow> string" where
  "model_type_name Recommendation = ''recommendation''"
| "model_type_name Nlp = ''nlp''"
| "model_type_name Sentiment = ''sentiment''"
| "model_type_name Anomaly = ''anomaly''"

fun initial_transformers :: "model_kind \<Rightarrow> nat \<Rightarrow> transformers" where
  "initial_transformers Recommendation vocab =
     \<lparr>numerical = StandardScaler None, categorical = [],
      text_tokenizer = Some (Tokenizer MAX_VOCAB_SIZE None)\<rparr>"
| "initial_transformers Nlp vocab =
     \<lparr>numerical = StandardScaler None, categorical = [],
      text_tokenizer = Some (Tokenizer vocab None)\<rparr>"
| "initial_transformers Sentiment vocab =
     \<lparr>numerical = StandardScaler None,
      categorical = map (\<lambda>f. (f, LabelEncoder None)) CATEGORICAL_FEATURES,
      text_tokenizer = None\<rparr>"
| "initial_transformers Anomaly vocab =
     \<lparr>numerical = MinMaxScaler None, categorical = [], text_tokenizer = None\<rparr>"

definition new_preprocessor :: "model_kind \<Rightarrow> string \<Rightarrow> string \<Rightarrow> nat \<Rightarrow> DataPreprocessor" where
  "new_preprocessor kind environment now vocab =
     \<lparr>dp_model_type = kind, dp_env = environment,
      preprocessor_state = PDict [(''model_type'', PStr (model_type_name kind)),
        (''created_at'', PStr now), (''version'', PStr ''1.0.0''),
        (''last_updated'', PNone), (''statistics'', PDict [])],
      dp_transformers = initial_transformers kind vocab,
      dp_cache = PDict [(''frequent_values'', PDict []), (''statistics'', PDict []),
        (''last_updated'', PNone)]\<rparr>"

text \<open>\<^verbatim>\<open>_validate_and_convert_input\<close>.\<close>

fun validate_and_convert_input :: "model_kind \<Rightarrow> pyinput \<Rightarrow> exn + pyinput" where
  "validate_and_convert_input kind (ListIn f) =
     (if kind = Nlp \<or> kind = Sentiment then Inr (ArrayIn f) else Inr (FrameIn f))"
| "validate_and_convert_input kind (ArrayIn f) =
     (if kind = Nlp \<or> kind = Sentiment then Inr (ArrayIn f) else Inr (FrameIn f))"
| "validate_and_convert_input kind (FrameIn f) = Inr (FrameIn f)"
| "validate_and_convert_input kind OtherIn =
     Inl (Exc PreprocessingError ''Unsupported input type'')"

text \<open>\<^verbatim>\<open>data[feature]\<close> and \<^verbatim>\<open>data[FEATURES]\<close>: KeyError when a column is not there.\<close>

definition frame_col :: "frame \<Rightarrow> string \<Rightarrow> exn + cell list" where
  "frame_col f name =
     (case map_of f (Name name) of None \<Rightarrow> Inl (Exc KeyError name) | Some c \<Rightarrow> Inr c)"

fun frame_select :: "frame \<Rightarrow> string list \<Rightarrow> exn + frame" where
  "frame_select f [] = Inr []"
| "frame_select f (name # names) =
     (case frame_col f name of
        Inl e \<Rightarrow> Inl e
      | Inr c \<Rightarrow>
          (case frame_select f names of
             Inl e \<Rightarrow> Inl e
           | Inr cs \<Rightarrow> Inr ((Name name, c) # cs)))"

text \<open>
  \<^verbatim>\<open>_update_statistics\<close>: the statistics of the numerical features the data has; any
  exception is logged and swallowed, and then the state record stays as it was.
\<close>

fun numerical_stats :: "collaborators \<Rightarrow> frame \<Rightarrow> string list \<Rightarrow> exn + (string \<times> pyval) list" where
  "numerical_stats lib f [] = Inr []"
| "numerical_stats lib f (name # names) =
     (case map_of f (Name name) of
        None \<Rightarrow> numerical_stats lib f names
      | Some c \<Rightarrow>
          (case column_summary lib c of
             Inl e \<Rightarrow> Inl e
           | Inr s \<Rightarrow>
               (case numerical_stats lib f names of
                  Inl e \<Rightarrow> Inl e
                | Inr rest \<Rightarrow> Inr ((name, s) # rest))))"

definition update_statistics :: "collaborators \<Rightarrow> string \<Rightarrow> pyinput \<Rightarrow> pyval \<Rightarrow> pyval" where
  "update_statistics lib now data st =
     (let base = [(''sample_count'', PInt (int (nrows (content data)))), (''timestamp'', PStr now)];
          stats = (case data of
                     FrameIn f \<Rightarrow>
                       (case numerical_stats lib f NUMERICAL_FEATURES of
                          Inl e \<Rightarrow> Inl e
                        | Inr ns \<Rightarrow> Inr (PDict (base @ [(''numerical_features'', PDict ns)])))
                   | _ \<Rightarrow> Inr (PDict base))
      in case stats of
           Inl e \<Rightarrow> st
         | Inr s \<Rightarrow> (case py_setitem st ''statistics'' s of Inl e \<Rightarrow> st | Inr st' \<Rightarrow> st'))"

text \<open>
  \<^verbatim>\<open>_process_recommendation_data\<close>. Fitting mutates the transformers in place, so a
  failure leaves what was fitted so far: every step returns the transformers too.
  \<^verbatim>\<open>np.hstack\<close> of the scaled numerical columns and the transposed list of encoded
  categorical columns; with no categorical column the second array is one-dimensional
  and \<^verbatim>\<open>hstack\<close> raises.
\<close>

fun fit_categorical ::
  "collaborators \<Rightarrow> frame \<Rightarrow> string list \<Rightarrow> transformers \<Rightarrow> (exn + unit) \<times> transformers" where
  "fit_categorical lib f [] tr = (Inr (), tr)"
| "fit_categorical lib f (name # names) tr =
     (case map_of f (Name name) of
        None \<Rightarrow> fit_categorical lib f names tr
      | Some c \<Rightarrow>
          (let tr1 = tr\<lparr>categorical := AList.update name (LabelEncoder None) (categorical tr)\<rparr>
           in case encoder_fit lib (LabelEncoder None) c of
                Inl e \<Rightarrow> (Inl e, tr1)
              | Inr enc \<Rightarrow>
                  fit_categorical lib f names
                    (tr\<lparr>categorical := AList.update name enc (categorical tr)\<rparr>)))"

fun transform_categorical ::
  "collaborators \<Rightarrow> frame \<Rightarrow> string list \<Rightarrow> transformers \<Rightarrow> exn + real list list" where
  "transform_categorical lib f [] tr = Inr []"
| "transform_categorical lib f (name # names) tr =
     (case map_of f (Name name) of
        None \<Rightarrow> transform_categorical lib f names tr
      | Some c \<Rightarrow>
          (case map_of (categorical tr) name of
             None \<Rightarrow> Inl (Exc KeyError name)
           | Some enc \<Rightarrow>
               (case encoder_transform lib enc c of
                  Inl e \<Rightarrow> Inl e
                | Inr col \<Rightarrow>
                    (case transform_categorical lib f names tr of
                       Inl e \<Rightarrow> Inl e
                     | Inr cols \<Rightarrow> Inr (col # cols)))))"

definition hstack :: "matrix \<Rightarrow> real list list \<Rightarrow> exn + matrix" where
  "hstack numerical_data categorical_columns =
     (if categorical_columns = [] then
        Inl (Exc ValueError ''all the input arrays must have same number of dimensions'')
      else if list_ex (\<lambda>c. length c \<noteq> length numerical_data) categorical_columns then
        Inl (Exc ValueError ''all the input array dimensions except for the concatenation axis must match exactly'')
      else Inr (map (\<lambda>i. numerical_data ! i @ map (\<lambda>c. c ! i) categorical_columns)
                  [0..<length numerical_data]))"

definition transform_recommendation ::
  "collaborators \<Rightarrow> frame \<Rightarrow> transformers \<Rightarrow> exn + matrix" where
  "transform_recommendation lib f tr =
     (case frame_select f NUMERICAL_FEATURES of
        Inl e \<Rightarrow> Inl e
      | Inr cols \<Rightarrow>
          (case scaler_transform lib (numerical tr) cols of
             Inl e \<Rightarrow> Inl e
           | Inr numerical_data \<Rightarrow>
               (case transform_categorical lib f CATEGORICAL_FEATURES tr of
                  Inl e \<Rightarrow> Inl e
                | Inr categorical_columns \<Rightarrow> hstack numerical_data categorical_columns)))"

definition process_recommendation_data ::
  "collaborators \<Rightarrow> frame \<Rightarrow> bool \<Rightarrow> transformers \<Rightarrow> (exn + matrix) \<times> transformers" where
  "process_recommendation_data lib f fit tr =
     (if fit then
        (case frame_select f NUMERICAL_FEATURES of
           Inl e \<Rightarrow> (Inl e, tr)
         | Inr cols \<Rightarrow>
             (case scaler_fit lib (numerical tr) cols of
                Inl e \<Rightarrow> (Inl e, tr)
              | Inr sc \<Rightarrow>
                  (case fit_categorical lib f CATEGORICAL_FEATURES (tr\<lparr>numerical := sc\<rparr>) of
                     (Inl e, tr2) \<Rightarrow> (Inl e, tr2)
                   | (Inr u, tr2) \<Rightarrow> (transform_recommendation lib f tr2, tr2))))
      else (transform_recommendation lib f tr, tr))"

text \<open>
  \<^verbatim>\<open>_process_nlp_data\<close>: \<^verbatim>\<open>pad_sequences\<close> with post-side padding and truncation to
  \<open>MAX_SEQUENCE_LENGTH\<close>. A model type without a tokenizer has \<^verbatim>\<open>None\<close> there.
\<close>

definition pad_sequence :: "nat list \<Rightarrow> real list" where
  "pad_sequence s =
     map real (take MAX_SEQUENCE_LENGTH s) @ replicate (MAX_SEQUENCE_LENGTH - length s) 0"

definition process_nlp_data ::
  "collaborators \<Rightarrow> pyinput \<Rightarrow> bool \<Rightarrow> transformers \<Rightarrow> (exn + matrix) \<times> transformers" where
  "process_nlp_data lib data fit tr =
     (case text_tokenizer tr of
        None \<Rightarrow> (Inl (Exc AttributeError ''NoneType object has no attribute''), tr)
      | Some tk \<Rightarrow>
          (if fit then
             (case fit_on_texts lib tk data of
                Inl e \<Rightarrow> (Inl e, tr)
              | Inr tk' \<Rightarrow>
                  (case texts_to_sequences lib tk' data of
                     Inl e \<Rightarrow> (Inl e, tr\<lparr>text_tokenizer := Some tk'\<rparr>)
                   | Inr seqs \<Rightarrow> (Inr (map pad_sequence seqs), tr\<lparr>text_tokenizer := Some tk'\<rparr>)))
           else
             (case texts_to_sequences lib tk data of
                Inl e \<Rightarrow> (Inl e, tr)
              | Inr seqs \<Rightarrow> (Inr (map pad_sequence seqs), tr))))"

text \<open>\<^verbatim>\<open>_process_sentiment_data\<close> and \<^verbatim>\<open>_process_anomaly_data\<close>.\<close>

definition process_sentiment_data ::
  "collaborators \<Rightarrow> pyinput \<Rightarrow> bool \<Rightarrow> transformers \<Rightarrow> (exn + matrix) \<times> transformers" where
  "process_sentiment_data lib data fit tr =
     (case data of
        ArrayIn f \<Rightarrow> process_nlp_data lib data fit tr
      | _ \<Rightarrow> process_recommendation_data lib (content data) fit tr)"

definition process_anomaly_data ::
  "collaborators \<Rightarrow> frame \<Rightarrow> bool \<Rightarrow> transformers \<Rightarrow> (exn + matrix) \<times> transformers" where
  "process_anomaly_data lib f fit tr =
     (case frame_select f NUMERICAL_FEATURES of
        Inl e \<Rightarrow> (Inl e, tr)
      | Inr cols \<Rightarrow>
          (if fit then
             (case scaler_fit lib (numerical tr) cols of
                Inl e \<Rightarrow> (Inl e, tr)
              | Inr sc \<Rightarrow> (scaler_transform lib sc cols, tr\<lparr>numerical := sc\<rparr>))
           else (scaler_transform lib (numerical tr) cols, tr)))"

text \<open>The dispatch on the model type that \<^verbatim>\<open>fit_transform\<close> and \<^verbatim>\<open>transform\<close> share.\<close>

fun process_data ::
  "model_kind \<Rightarrow> collaborators \<Rightarrow> pyinput \<Rightarrow> bool \<Rightarrow> transformers \<Rightarrow> (exn + matrix) \<times> transformers" where
  "process_data Recommendation lib data fit tr = process_recommendation_data lib (content data) fit tr"
| "process_data Nlp lib data fit tr = process_nlp_data lib data fit tr"
| "process_data Sentiment lib data fit tr = process_sentiment_data lib data fit tr"
| "process_data Anomaly lib data fit tr = process_anomaly_data lib (content data) fit tr"

text \<open>
  \<^verbatim>\<open>fit_transform\<close>: every exception leaves the method as a PreprocessingError with
  the message \<^verbatim>\<open>Fit transform failed: ...\<close>; what was mutated before stays mutated.
\<close>

definition fit_transform ::
  "collaborators \<Rightarrow> string \<Rightarrow> DataPreprocessor \<Rightarrow> pyinput \<Rightarrow> (exn + matrix) \<times> DataPreprocessor" where
  "fit_transform lib now dp data =
     (let wrap = (\<lambda>e. Inl (Exc PreprocessingError (''Fit transform failed: '' @ str_exn e))) in
      case validate_and_convert_input (dp_model_type dp) data of
        Inl e \<Rightarrow> (wrap e, dp)
      | Inr data' \<Rightarrow>
          (let dp1 = dp\<lparr>preprocessor_state := update_statistics lib now data' (preprocessor_state dp)\<rparr>
           in case process_data (dp_model_type dp) lib data' True (dp_transformers dp1) of
                (Inl e, tr) \<Rightarrow> (wrap e, dp1\<lparr>dp_transformers := tr\<rparr>)
              | (Inr processed, tr) \<Rightarrow>
                  (let dp2 = dp1\<lparr>dp_transformers := tr\<rparr>
                   in case py_setitem (preprocessor_state dp2) ''last_updated'' (PStr now) of
                        Inl e \<Rightarrow> (wrap e, dp2)
                      | Inr st \<Rightarrow> (Inr processed, dp2\<lparr>preprocessor_state := st\<rparr>))))"

text \<open>
  \<^verbatim>\<open>transform\<close>: the guard on \<^verbatim>\<open>preprocessor_state.get('last_updated')\<close> comes
  first; its PreprocessingError is caught by the method's own handler and raised again
  as \<^verbatim>\<open>Transform failed: Preprocessor must be fitted before transform\<close>.
\<close>

definition transform ::
  "collaborators \<Rightarrow> DataPreprocessor \<Rightarrow> pyinput \<Rightarrow> (exn + matrix) \<times> DataPreprocessor" where
  "transform lib dp data =
     (let wrap = (\<lambda>e. Inl (Exc PreprocessingError (''Transform failed: '' @ str_exn e))) in
      case py_get (preprocessor_state dp) ''last_updated'' of
        Inl e \<Rightarrow> (wrap e, dp)
      | Inr lu \<Rightarrow>
          (if \<not> truthy lu then
             (wrap (Exc PreprocessingError ''Preprocessor must be fitted before transform''), dp)
           else
             (case validate_and_convert_input (dp_model_type dp) data of
                Inl e \<Rightarrow> (wrap e, dp)
              | Inr data' \<Rightarrow>
                  (case process_data (dp_model_type dp) lib data' False (dp_transformers dp) of
                     (Inl e, tr) \<Rightarrow> (wrap e, dp\<lparr>dp_transformers := tr\<rparr>)
                   | (Inr processed, tr) \<Rightarrow> (Inr processed, dp\<lparr>dp_transformers := tr\<rparr>)))))"

section \<open>The file system the artifacts are written to\<close>

text \<open>
  A directory tree. A file holds what was serialised into it: a JSON document, a
  pickle of the transformers, a \<^verbatim>\<open>.npy\<close> pickle of a dict, a saved Keras model, or the
  remains of a write that failed partway. A path is the list of its components, from
  the working directory.
\<close>

datatype blob =
    JsonBlob pyval | PickleBlob transformers | NpyBlob pyval | KerasBlob weights
  | PartialBlob

datatype node = File blob | Dir "(string \<times> node) list"

type_synonym path = "string list"

fun lookup :: "node \<Rightarrow> path \<Rightarrow> node option" where
  "lookup n [] = Some n"
| "lookup (File b) (c # p) = None"
| "lookup (Dir es) (c # p) = (case map_of es c of None \<Rightarrow> None | Some n \<Rightarrow> lookup n p)"

text \<open>
  \<open>set_at fs p (Some n)\<close> puts \<open>n\<close> at \<open>p\<close>, \<open>set_at fs p None\<close> removes what is at
  \<open>p\<close>; both need the parent directory of \<open>p\<close> and leave the tree as it is
  without it.
\<close>

fun set_at :: "node \<Rightarrow> path \<Rightarrow> node option \<Rightarrow> node" where
  "set_at n [] v = (case v of Some n' \<Rightarrow> n' | None \<Rightarrow> n)"
| "set_at (File b) (c # p) v = File b"
| "set_at (Dir es) [c] v =
     Dir (case v of Some n' \<Rightarrow> AList.update c n' es | None \<Rightarrow> AList.delete c es)"
| "set_at (Dir es) (c # p) v =
     (case map_of es c of None \<Rightarrow> Dir es | Some n \<Rightarrow> Dir (AList.update c (set_at n p v) es))"

text \<open>\<^verbatim>\<open>os.makedirs(p, exist_ok=True)\<close> and \<^verbatim>\<open>Path(p).mkdir(parents=True, exist_ok=True)\<close>.\<close>

fun makedirs :: "node \<Rightarrow> path \<Rightarrow> exn + node" where
  "makedirs (Dir es) [] = Inr (Dir es)"
| "makedirs (File b) [] = Inl (Exc FileExistsError ''File exists'')"
| "makedirs (File b) (c # p) = Inl (Exc NotADirectoryError ''Not a directory'')"
| "makedirs (Dir es) (c # p) =
     (case makedirs (case map_of es c of None \<Rightarrow> Dir [] | Some n \<Rightarrow> n) p of
        Inl e \<Rightarrow> Inl e
      | Inr n' \<Rightarrow> Inr (Dir (AList.update c n' es)))"

text \<open>
  What the environment does to one operation on one path (a full disk, a permission, a
  value that does not serialise): it lets it succeed, fails it before anything is
  written, or fails it partway, leaving a partial file. Every operation takes the
  environment's choice for its path as \<open>flt path\<close>.
\<close>

datatype outcome = Succeeds | FailsBefore | FailsPartway

type_synonym faults = "path \<Rightarrow> outcome"

definition os_makedirs :: "faults \<Rightarrow> path \<Rightarrow> node \<Rightarrow> (exn + unit) \<times> node" where
  "os_makedirs flt p fs =
     (case flt p of
        Succeeds \<Rightarrow> (case makedirs fs p of Inl e \<Rightarrow> (Inl e, fs) | Inr fs' \<Rightarrow> (Inr (), fs'))
      | _ \<Rightarrow> (Inl (Exc OSError ''cannot create directory''), fs))"

definition write_file :: "faults \<Rightarrow> path \<Rightarrow> blob \<Rightarrow> node \<Rightarrow> (exn + unit) \<times> node" where
  "write_file flt p b fs =
     (if p = [] then (Inl (Exc IsADirectoryError ''Is a directory''), fs)
      else case lookup fs (butlast p) of
        None \<Rightarrow> (Inl (Exc FileNotFoundError ''No such file or directory''), fs)
      | Some (File x) \<Rightarrow> (Inl (Exc NotADirectoryError ''Not a directory''), fs)
      | Some (Dir es) \<Rightarrow>
          (case lookup fs p of
             Some (Dir es') \<Rightarrow> (Inl (Exc IsADirectoryError ''Is a directory''), fs)
           | _ \<Rightarrow>
               (case flt p of
                  Succeeds \<Rightarrow> (Inr (), set_at fs p (Some (File b)))
                | FailsBefore \<Rightarrow> (Inl (Exc OSError ''write failed''), fs)
                | FailsPartway \<Rightarrow>
                    (Inl (Exc OSError ''write failed''), set_at fs p (Some (File PartialBlob))))))"

definition read_file :: "path \<Rightarrow> node \<Rightarrow> exn + blob" where
  "read_file p fs =
     (case lookup fs p of
        None \<Rightarrow> Inl (Exc FileNotFoundError ''No such file or directory'')
      | Some (Dir es) \<Rightarrow> Inl (Exc IsADirectoryError ''Is a directory'')
      | Some (File b) \<Rightarrow> Inr b)"

definition os_path_exists :: "path \<Rightarrow> node \<Rightarrow> bool" where
  "os_path_exists p fs = (lookup fs p \<noteq> None)"

text \<open>
  \<^verbatim>\<open>os.rename(src, dst)\<close>, as POSIX has it: a directory replaces an empty directory
  and nothing else; a file replaces a file.
\<close>

fun rename_allowed :: "node \<Rightarrow> node option \<Rightarrow> exn + unit" where
  "rename_allowed s None = Inr ()"
| "rename_allowed (File b) (Some (File b')) = Inr ()"
| "rename_allowed (File b) (Some (Dir es)) = Inl (Exc IsADirectoryError ''Is a directory'')"
| "rename_allowed (Dir es) (Some (File b')) = Inl (Exc NotADirectoryError ''Not a directory'')"
| "rename_allowed (Dir es) (Some (Dir es')) =
     (if es' = [] then Inr () else Inl (Exc OSError ''Directory not empty''))"

definition os_rename :: "faults \<Rightarrow> path \<Rightarrow> path \<Rightarrow> node \<Rightarrow> (exn + unit) \<times> node" where
  "os_rename flt src dst fs =
     (case flt src of
        Succeeds \<Rightarrow>
          (case lookup fs src of
             None \<Rightarrow> (Inl (Exc FileNotFoundError ''No such file or directory''), fs)
           | Some s \<Rightarrow>
               (if src = dst then (Inr (), fs)
                else if prefix src dst \<or> dst = [] then (Inl (Exc OSError ''Invalid argument''), fs)
                else case lookup fs (butlast dst) of
                   None \<Rightarrow> (Inl (Exc FileNotFoundError ''No such file or directory''), fs)
                 | Some (File x) \<Rightarrow> (Inl (Exc NotADirectoryError ''Not a directory''), fs)
                 | Some (Dir es) \<Rightarrow>
                     (case rename_allowed s (lookup fs dst) of
                        Inl e \<Rightarrow> (Inl e, fs)
                      | Inr u \<Rightarrow> (Inr (), set_at (set_at fs src None) dst (Some s)))))
      | _ \<Rightarrow> (Inl (Exc OSError ''rename failed''), fs))"

text \<open>\<^verbatim>\<open>os.remove(p)\<close> removes a file and raises on a directory.\<close>

definition os_remove :: "faults \<Rightarrow> path \<Rightarrow> node \<Rightarrow> (exn + unit) \<times> node" where
  "os_remove flt p fs =
     (case lookup fs p of
        None \<Rightarrow> (Inl (Exc FileNotFoundError ''No such file or directory''), fs)
      | Some (Dir es) \<Rightarrow> (Inl (Exc IsADirectoryError ''Is a directory''), fs)
      | Some (File b) \<Rightarrow>
          (case flt p of
             Succeeds \<Rightarrow> (Inr (), set_at fs p None)
           | _ \<Rightarrow> (Inl (Exc OSError ''remove failed''), fs)))"

text \<open>Deserialising what a file holds.\<close>

fun json_load :: "blob \<Rightarrow> exn + pyval" where
  "json_load (JsonBlob v) = Inr v"
| "json_load _ = Inl (Exc ValueError ''JSONDecodeError'')"

fun pickle_load :: "blob \<Rightarrow> exn + transformers" where
  "pickle_load (PickleBlob t) = Inr t"
| "pickle_load _ = Inl (Exc UnpicklingError ''invalid pickle'')"

section \<open>Feature preprocessor: persistence\<close>

text \<open>
  \<^verbatim>\<open>save_state\<close>: three files under \<open>path\<close>; any exception is logged and the method
  returns \<^verbatim>\<open>False\<close>, with what was written before still on disk.
\<close>

definition save_state :: "faults \<Rightarrow> DataPreprocessor \<Rightarrow> path \<Rightarrow> node \<Rightarrow> bool \<times> node" where
  "save_state flt dp p fs =
     (case os_makedirs flt p fs of
        (Inl e, fs1) \<Rightarrow> (False, fs1)
      | (Inr u, fs1) \<Rightarrow>
          (case write_file flt (p @ [''preprocessor_state.json''])
                  (JsonBlob (preprocessor_state dp)) fs1 of
             (Inl e, fs2) \<Rightarrow> (False, fs2)
           | (Inr u, fs2) \<Rightarrow>
               (case write_file flt (p @ [''transformers.pkl''])
                       (PickleBlob (dp_transformers dp)) fs2 of
                  (Inl e, fs3) \<Rightarrow> (False, fs3)
                | (Inr u, fs3) \<Rightarrow>
                    (case write_file flt (p @ [''cache.json'']) (JsonBlob (dp_cache dp)) fs3 of
                       (Inl e, fs4) \<Rightarrow> (False, fs4)
                     | (Inr u, fs4) \<Rightarrow> (True, fs4)))))"

text \<open>
  \<^verbatim>\<open>load_state\<close>: each attribute is assigned as soon as its file is read, so a
  failure at a later file returns \<^verbatim>\<open>False\<close> with the earlier attributes replaced.
\<close>

definition load_state :: "DataPreprocessor \<Rightarrow> path \<Rightarrow> node \<Rightarrow> bool \<times> DataPreprocessor" where
  "load_state dp p fs =
     (case (case read_file (p @ [''preprocessor_state.json'']) fs of
              Inl e \<Rightarrow> Inl e | Inr b \<Rightarrow> json_load b) of
        Inl e \<Rightarrow> (False, dp)
      | Inr st \<Rightarrow>
          (let dp1 = dp\<lparr>preprocessor_state := st\<rparr> in
           case (case read_file (p @ [''transformers.pkl'']) fs of
                   Inl e \<Rightarrow> Inl e | Inr b \<Rightarrow> pickle_load b) of
             Inl e \<Rightarrow> (False, dp1)
           | Inr tr \<Rightarrow>
               (let dp2 = dp1\<lparr>dp_transformers := tr\<rparr> in
                case (case read_file (p @ [''cache.json'']) fs of
                        Inl e \<Rightarrow> Inl e | Inr b \<Rightarrow> json_load b) of
                  Inl e \<Rightarrow> (False, dp2)
                | Inr c \<Rightarrow> (True, dp2\<lparr>dp_cache := c\<rparr>))))"

section \<open>Persona model (models/persona\_model.py)\<close>

text \<open>
  The state of a \<^verbatim>\<open>PersonaModel\<close>: its configuration dict, its own preprocessor, the
  \<^verbatim>\<open>model_state\<close> dict, the weights of the Keras model, the last training history
  and the prediction cache, keyed by \<^verbatim>\<open>hash(user_preferences.tobytes())\<close>.
\<close>

record PersonaModel =
  pm_model_config :: pyval
  pm_preprocessor :: DataPreprocessor
  pm_model_state :: pyval
  pm_weights :: weights
  pm_training_history :: "history option"
  prediction_cache :: "(int \<times> (ndarray \<times> ndarray)) list"

text \<open>\<^verbatim>\<open>x += 1\<close> on a plain value.\<close>

fun py_add_one :: "pyval \<Rightarrow> exn + pyval" where
  "py_add_one (PInt i) = Inr (PInt (i + 1))"
| "py_add_one (PFloat r) = Inr (PFloat (r + 1))"
| "py_add_one (PBool b) = Inr (PInt ((if b then 1 else 0) + 1))"
| "py_add_one _ = Inl (Exc TypeError ''unsupported operand type(s) for +='')"

text \<open>\<^verbatim>\<open>history.history[key][-1]\<close>.\<close>

definition history_last :: "history \<Rightarrow> string \<Rightarrow> exn + real" where
  "history_last h key =
     (case map_of h key of
        None \<Rightarrow> Inl (Exc KeyError key)
      | Some xs \<Rightarrow> (if xs = [] then Inl (Exc IndexError ''list index out of range'')
                     else Inr (last xs)))"

fun collect_metrics :: "history \<Rightarrow> (string \<times> string) list \<Rightarrow> exn + (string \<times> real) list" where
  "collect_metrics h [] = Inr []"
| "collect_metrics h ((name, key) # rest) =
     (case history_last h key of
        Inl e \<Rightarrow> Inl e
      | Inr v \<Rightarrow>
          (case collect_metrics h rest of
             Inl e \<Rightarrow> Inl e
           | Inr ms \<Rightarrow> Inr ((name, v) # ms)))"

definition persona_metric_keys :: "(string \<times> string) list" where
  "persona_metric_keys =
     [(''loss'', ''loss''), (''accuracy'', ''recommendations_accuracy''),
      (''confidence_accuracy'', ''confidence_accuracy''), (''val_loss'', ''val_loss'')]"

text \<open>
  \<^verbatim>\<open>PersonaModel.train\<close>. \<open>now\<close> and \<open>ts\<close> are the clock's readings
  (\<^verbatim>\<open>datetime.utcnow().isoformat()\<close> inside \<^verbatim>\<open>fit_transform\<close>, \<^verbatim>\<open>tf.timestamp()\<close>).
  Every exception leaves the method as a RuntimeError
  \<^verbatim>\<open>Model training failed: ...\<close>; the attributes assigned before it stay assigned,
  so the result holds the model as well.
\<close>

definition train ::
  "collaborators \<Rightarrow> string \<Rightarrow> rat \<Rightarrow> PersonaModel \<Rightarrow> pyinput \<Rightarrow> ndarray \<Rightarrow> nat \<Rightarrow> nat \<Rightarrow> bool
     \<Rightarrow> (exn + (string \<times> real) list) \<times> PersonaModel" where
  "train lib now ts m X_train y_train epochs batch_size incremental =
     (let wrap = (\<lambda>e. Inl (Exc RuntimeError (''Model training failed: '' @ str_exn e)));
          (processed, pre) =
             (if \<not> incremental then fit_transform lib now (pm_preprocessor m) X_train
              else transform lib (pm_preprocessor m) X_train);
          m1 = m\<lparr>pm_preprocessor := pre\<rparr>
      in case processed of
           Inl e \<Rightarrow> (wrap e, m1)
         | Inr X_processed \<Rightarrow>
             (case keras_fit lib (pm_weights m1) X_processed y_train epochs batch_size of
                Inl e \<Rightarrow> (wrap e, m1)
              | Inr (h, w) \<Rightarrow>
                  (let m2 = m1\<lparr>pm_weights := w\<rparr> in
                   case py_index (pm_model_state m2) ''training_iterations'' of
                     Inl e \<Rightarrow> (wrap e, m2)
                   | Inr it \<Rightarrow>
                       (case py_add_one it of
                          Inl e \<Rightarrow> (wrap e, m2)
                        | Inr it' \<Rightarrow>
                            (case py_setitem (pm_model_state m2) ''training_iterations'' it' of
                               Inl e \<Rightarrow> (wrap e, m2)
                             | Inr st1 \<Rightarrow>
                                 (case py_setitem st1 ''last_update'' (PFloat ts) of
                                    Inl e \<Rightarrow> (wrap e, m2\<lparr>pm_model_state := st1\<rparr>)
                                  | Inr st2 \<Rightarrow>
                                      (let m3 = m2\<lparr>pm_model_state := st2,
                                                   pm_training_history := Some h,
                                                   prediction_cache := []\<rparr>
                                       in case collect_metrics h persona_metric_keys of
                                            Inl e \<Rightarrow> (wrap e, m3)
                                          | Inr metrics \<Rightarrow> (Inr metrics, m3))))))))"

text \<open>
  \<^verbatim>\<open>self.model.predict(processed_input, batch_size=1)\<close>: Keras raises ValueError on
  an empty batch and returns one row per input row, here the recommendation vector and
  the one-column confidence of each row.
\<close>

fun forward_rows :: "collaborators \<Rightarrow> weights \<Rightarrow> matrix \<Rightarrow> exn + (matrix \<times> matrix)" where
  "forward_rows lib w [] = Inr ([], [])"
| "forward_rows lib w (x # xs) =
     (case persona_forward lib w x of
        Inl e \<Rightarrow> Inl e
      | Inr (r, c) \<Rightarrow>
          (case forward_rows lib w xs of
             Inl e \<Rightarrow> Inl e
           | Inr (rs, cs) \<Rightarrow> Inr (r # rs, [c] # cs)))"

definition model_predict :: "collaborators \<Rightarrow> weights \<Rightarrow> matrix \<Rightarrow> exn + (matrix \<times> matrix)" where
  "model_predict lib w x =
     (if x = [] then
        Inl (Exc ValueError ''Unexpected result of predict_function (Empty batch_outputs)'')
      else forward_rows lib w x)"

text \<open>The threshold \<^verbatim>\<open>model_config['inference_settings']['confidence_threshold']\<close>.\<close>

fun py_number :: "pyval \<Rightarrow> exn + real" where
  "py_number (PInt i) = Inr (real_of_int i)"
| "py_number (PFloat r) = Inr (of_rat r)"
| "py_number (PBool b) = Inr (if b then 1 else 0)"
| "py_number _ = Inl (Exc TypeError ''comparison not supported'')"

definition confidence_threshold :: "pyval \<Rightarrow> exn + real" where
  "confidence_threshold model_config =
     (case py_index model_config ''inference_settings'' of
        Inl e \<Rightarrow> Inl e
      | Inr s \<Rightarrow>
          (case py_index s ''confidence_threshold'' of
             Inl e \<Rightarrow> Inl e
           | Inr t \<Rightarrow> py_number t))"

text \<open>
  \<^verbatim>\<open>recommendations[confidence >= confidence_threshold]\<close>: indexing with a boolean
  array of two dimensions needs an array of the same shape and gives the selected
  elements as a one-dimensional array; numpy raises IndexError when the shapes differ.
\<close>

definition same_shape :: "matrix \<Rightarrow> bool list list \<Rightarrow> bool" where
  "same_shape a msk = (map length a = map length msk)"

definition boolean_index :: "matrix \<Rightarrow> bool list list \<Rightarrow> exn + real list" where
  "boolean_index a msk =
     (if same_shape a msk
      then Inr (map fst (filter snd (zip (concat a) (concat msk))))
      else Inl (Exc IndexError ''boolean index did not match indexed array''))"

definition threshold_mask :: "matrix \<Rightarrow> real \<Rightarrow> bool list list" where
  "threshold_mask confidence t = map (map (\<lambda>c. c \<ge> t)) confidence"

definition cache_key_of :: "collaborators \<Rightarrow> pyinput \<Rightarrow> exn + int" where
  "cache_key_of lib user_preferences =
     (case user_preferences of
        ArrayIn f \<Rightarrow> Inr (tobytes_hash lib f)
      | _ \<Rightarrow> Inl (Exc AttributeError ''object has no attribute tobytes''))"

text \<open>
  \<^verbatim>\<open>PersonaModel.predict\<close>. Every exception leaves the method as a RuntimeError
  \<^verbatim>\<open>Model prediction failed: ...\<close>.
\<close>

definition predict ::
  "collaborators \<Rightarrow> PersonaModel \<Rightarrow> pyinput \<Rightarrow> bool
     \<Rightarrow> (exn + (ndarray \<times> ndarray)) \<times> PersonaModel" where
  "predict lib m user_preferences use_cache =
     (let wrap = (\<lambda>e. Inl (Exc RuntimeError (''Model prediction failed: '' @ str_exn e))) in
      case cache_key_of lib user_preferences of
        Inl e \<Rightarrow> (wrap e, m)
      | Inr key \<Rightarrow>
          (case (if use_cache then map_of (prediction_cache m) key else None) of
             Some cached \<Rightarrow> (Inr cached, m)
           | None \<Rightarrow>
               (case transform lib (pm_preprocessor m) user_preferences of
                  (Inl e, pre) \<Rightarrow> (wrap e, m\<lparr>pm_preprocessor := pre\<rparr>)
                | (Inr processed_input, pre) \<Rightarrow>
                    (let m1 = m\<lparr>pm_preprocessor := pre\<rparr> in
                     case model_predict lib (pm_weights m1) processed_input of
                       Inl e \<Rightarrow> (wrap e, m1)
                     | Inr (recommendations, confidence) \<Rightarrow>
                         (case confidence_threshold (pm_model_config m1) of
                            Inl e \<Rightarrow> (wrap e, m1)
                          | Inr t \<Rightarrow>
                              (case boolean_index recommendations (threshold_mask confidence t) of
                                 Inl e \<Rightarrow> (wrap e, m1)
                               | Inr valid \<Rightarrow>
                                   (let result =
                                      (if length valid = 0
                                       then (A2 recommendations,
                                             A2 (map (map (\<lambda>c. 1 * (1 / 2))) confidence))
                                       else (A1 valid, A2 confidence))
                                    in (Inr result,
                                        if use_cache
                                        then m1\<lparr>prediction_cache :=
                                               AList.update key result (prediction_cache m1)\<rparr>
                                        else m1))))))))"





section \<open>Recommendation model (models/recommendation\_model.py)\<close>

text \<open>
  numpy's floating-point results, as far as the selection and the confidence need
  them: a finite value, an infinity, or NaN. Arithmetic on finite values is exact
  (no rounding, no overflow, no signed zero); what the model keeps of IEEE 754 is what
  decides control flow: dividing by zero gives NaN or an infinity and raises nothing,
  NaN spreads through arithmetic, and every comparison with NaN is false.
\<close>

datatype npfloat = Fin real | PosInf | NegInf | NaN

fun is_Fin :: "npfloat \<Rightarrow> bool" where
  "is_Fin (Fin x) = True"
| "is_Fin _ = False"

fun fl_neg :: "npfloat \<Rightarrow> npfloat" where
  "fl_neg (Fin x) = Fin (- x)"
| "fl_neg PosInf = NegInf"
| "fl_neg NegInf = PosInf"
| "fl_neg NaN = NaN"

fun fl_add :: "npfloat \<Rightarrow> npfloat \<Rightarrow> npfloat" where
  "fl_add (Fin x) (Fin y) = Fin (x + y)"
| "fl_add NaN b = NaN"
| "fl_add a NaN = NaN"
| "fl_add PosInf NegInf = NaN"
| "fl_add NegInf PosInf = NaN"
| "fl_add PosInf b = PosInf"
| "fl_add NegInf b = NegInf"
| "fl_add a PosInf = PosInf"
| "fl_add a NegInf = NegInf"

definition fl_sub :: "npfloat \<Rightarrow> npfloat \<Rightarrow> npfloat" where
  "fl_sub a b = fl_add a (fl_neg b)"

definition signed_inf :: "bool \<Rightarrow> npfloat" where
  "signed_inf positive = (if positive then PosInf else NegInf)"

fun fl_mul :: "npfloat \<Rightarrow> npfloat \<Rightarrow> npfloat" where
  "fl_mul (Fin x) (Fin y) = Fin (x * y)"
| "fl_mul NaN b = NaN"
| "fl_mul a NaN = NaN"
| "fl_mul (Fin x) PosInf = (if x = 0 then NaN else signed_inf (x > 0))"
| "fl_mul (Fin x) NegInf = (if x = 0 then NaN else signed_inf (x < 0))"
| "fl_mul PosInf (Fin y) = (if y = 0 then NaN else signed_inf (y > 0))"
| "fl_mul NegInf (Fin y) = (if y = 0 then NaN else signed_inf (y < 0))"
| "fl_mul PosInf PosInf = PosInf"
| "fl_mul NegInf NegInf = PosInf"
| "fl_mul PosInf NegInf = NegInf"
| "fl_mul NegInf PosInf = NegInf"

fun fl_div :: "npfloat \<Rightarrow> npfloat \<Rightarrow> npfloat" where
  "fl_div (Fin x) (Fin y) =
     (if y \<noteq> 0 then Fin (x / y) else if x = 0 then NaN else signed_inf (x > 0))"
| "fl_div NaN b = NaN"
| "fl_div a NaN = NaN"
| "fl_div (Fin x) PosInf = Fin 0"
| "fl_div (Fin x) NegInf = Fin 0"
| "fl_div PosInf (Fin y) = signed_inf (y \<ge> 0)"
| "fl_div NegInf (Fin y) = signed_inf (y < 0)"
| "fl_div PosInf b = NaN"
| "fl_div NegInf b = NaN"

text \<open>\<^verbatim>\<open>a > b\<close>: false whenever one side is NaN.\<close>

fun fl_gt :: "npfloat \<Rightarrow> npfloat \<Rightarrow> bool" where
  "fl_gt (Fin x) (Fin y) = (x > y)"
| "fl_gt NaN b = False"
| "fl_gt a NaN = False"
| "fl_gt PosInf PosInf = False"
| "fl_gt PosInf b = True"
| "fl_gt a PosInf = False"
| "fl_gt NegInf b = False"
| "fl_gt a NegInf = True"

text \<open>\<^verbatim>\<open>np.max\<close> spreads NaN; \<^verbatim>\<open>np.mean\<close> of nothing is NaN (with a warning).\<close>

fun fl_max2 :: "npfloat \<Rightarrow> npfloat \<Rightarrow> npfloat" where
  "fl_max2 NaN b = NaN"
| "fl_max2 a NaN = NaN"
| "fl_max2 a b = (if fl_gt b a then b else a)"

fun np_max :: "npfloat list \<Rightarrow> npfloat" where
  "np_max [] = NaN"
| "np_max [a] = a"
| "np_max (a # as) = fl_max2 a (np_max as)"

definition fl_sum :: "npfloat list \<Rightarrow> npfloat" where
  "fl_sum xs = foldl fl_add (Fin 0) xs"

definition np_mean :: "npfloat list \<Rightarrow> npfloat" where
  "np_mean xs = fl_div (fl_sum xs) (Fin (real (length xs)))"

definition np_std :: "real list \<Rightarrow> npfloat" where
  "np_std xs =
     (if xs = [] then NaN
      else (let mu = sum_list xs / real (length xs)
            in Fin (sqrt (sum_list (map (\<lambda>x. (x - mu)\<^sup>2) xs) / real (length xs)))))"

definition dot :: "real list \<Rightarrow> real list \<Rightarrow> real" where
  "dot a b = sum_list (map2 (\<lambda>x y. x * y) a b)"

definition norm2 :: "real list \<Rightarrow> real" where
  "norm2 a = sqrt (sum_list (map (\<lambda>x. x\<^sup>2) a))"

text \<open>
  \<^verbatim>\<open>_calculate_diversity\<close>: 1.0 when nothing is selected yet (the caller passes
  \<^verbatim>\<open>None\<close>), else one minus the mean cosine similarity to the selected vectors. The
  cosine divides by the product of the norms and has no guard: with a zero vector on
  either side it is \<open>0 / 0\<close>.
\<close>

definition cosine :: "real list \<Rightarrow> real list \<Rightarrow> npfloat" where
  "cosine feature_vector selected = fl_div (Fin (dot feature_vector selected))
       (Fin (norm2 feature_vector * norm2 selected))"

definition calculate_diversity :: "real list \<Rightarrow> real list list option \<Rightarrow> npfloat" where
  "calculate_diversity feature_vector selected_features =
     (case selected_features of
        None \<Rightarrow> Fin 1
      | Some sel \<Rightarrow> fl_sub (Fin 1) (np_mean (map (cosine feature_vector) sel)))"

text \<open>
  \<^verbatim>\<open>_enhance_diversity\<close>. The \<^verbatim>\<open>for\<close> loop over the candidates keeps the best score
  and its index (\<^verbatim>\<open>-1\<close> is \<open>None\<close>); \<^verbatim>\<open>features[i]\<close> raises IndexError past the end
  of \<open>features\<close>. \<open>lambda_param\<close> is 0.5.
\<close>

definition lambda_param :: real where
  "lambda_param = 1 / 2"

definition candidate_score :: "real list \<Rightarrow> matrix \<Rightarrow> nat list \<Rightarrow> nat \<Rightarrow> npfloat" where
  "candidate_score predictions features selected_indices i =
     fl_add (Fin (lambda_param * predictions ! i))
       (fl_mul (Fin (1 - lambda_param))
          (calculate_diversity (features ! i)
             (if selected_indices = [] then None
              else Some (map (\<lambda>j. features ! j) selected_indices))))"

fun scan_candidates ::
  "real list \<Rightarrow> matrix \<Rightarrow> nat list \<Rightarrow> nat list \<Rightarrow> npfloat \<times> nat option
     \<Rightarrow> exn + (npfloat \<times> nat option)" where
  "scan_candidates predictions features selected_indices [] best = Inr best"
| "scan_candidates predictions features selected_indices (i # rest) (best_score, best_idx) =
     (if i \<in> set selected_indices
      then scan_candidates predictions features selected_indices rest (best_score, best_idx)
      else if i \<ge> length features
      then Inl (Exc IndexError ''index is out of bounds for axis 0'')
      else (let score = candidate_score predictions features selected_indices i
            in if fl_gt score best_score
               then scan_candidates predictions features selected_indices rest (score, Some i)
               else scan_candidates predictions features selected_indices rest
                      (best_score, best_idx)))"

definition best_candidate :: "real list \<Rightarrow> matrix \<Rightarrow> nat list \<Rightarrow> exn + nat option" where
  "best_candidate predictions features selected_indices =
     (case scan_candidates predictions features selected_indices [0..<length predictions]
             (NegInf, None) of
        Inl e \<Rightarrow> Inl e
      | Inr (best_score, best_idx) \<Rightarrow> Inr best_idx)"

text \<open>
  The \<^verbatim>\<open>while len(selected_indices) < n_recommendations\<close> loop appends the best index
  when there is one and goes round again either way; when no candidate scores above
  \<^verbatim>\<open>-inf\<close> it never ends, which is the value \<open>None\<close> here.
\<close>

partial_function (option) select_loop ::
  "real list \<Rightarrow> matrix \<Rightarrow> int \<Rightarrow> nat list \<Rightarrow> (exn + nat list) option" where
  "select_loop predictions features n_recommendations selected_indices =
     (if int (length selected_indices) < n_recommendations then
        (case best_candidate predictions features selected_indices of
           Inl e \<Rightarrow> Some (Inl e)
         | Inr None \<Rightarrow> select_loop predictions features n_recommendations selected_indices
         | Inr (Some best_idx) \<Rightarrow>
             select_loop predictions features n_recommendations (selected_indices @ [best_idx]))
      else Some (Inr selected_indices))"

definition enhance_diversity :: "real list \<Rightarrow> matrix \<Rightarrow> int \<Rightarrow> (exn + real list) option" where
  "enhance_diversity predictions features n_recommendations =
     (case select_loop predictions features n_recommendations [] of
        None \<Rightarrow> None
      | Some (Inl e) \<Rightarrow> Some (Inl e)
      | Some (Inr selected_indices) \<Rightarrow>
          Some (Inr (map (\<lambda>i. predictions ! i) selected_indices)))"

text \<open>
  \<^verbatim>\<open>_calculate_confidence\<close>: the scores before the normalisation, and the division by
  their maximum. \<^verbatim>\<open>np.max\<close> of an empty array raises ValueError; nothing else in the
  function raises, and nothing looks at the maximum before dividing by it.
\<close>

definition confidence_scores :: "real list \<Rightarrow> matrix \<Rightarrow> npfloat list" where
  "confidence_scores predictions features =
     (let prediction_std = np_std predictions;
          feature_density = map (\<lambda>row. np_mean (map Fin row)) features
      in map (\<lambda>d. fl_mul (fl_sub (Fin 1) prediction_std) d) feature_density)"

definition calculate_confidence :: "real list \<Rightarrow> matrix \<Rightarrow> exn + npfloat list" where
  "calculate_confidence predictions features =
     (let scores = confidence_scores predictions features
      in if scores = []
         then Inl (Exc ValueError ''zero-size array to reduction operation maximum which has no identity'')
         else Inr (map (\<lambda>c. fl_div c (np_max scores)) scores))"

text \<open>
  The state of a \<^verbatim>\<open>RecommendationModel\<close>. The class has neither \<^verbatim>\<open>save\<close> nor
  \<^verbatim>\<open>load\<close>, so its state dicts keep the keys and types the constructor gives them.
\<close>

record RecommendationModel =
  rm_preprocessor :: DataPreprocessor
  rm_weights :: weights
  is_trained :: bool
  rm_training_iterations :: int
  update_history :: "(real \<times> real \<times> string) list"
  last_trained :: "string option"
  performance_metrics :: "(string \<times> real) list"

text \<open>
  \<^verbatim>\<open>processed_data[:, :-1]\<close> and \<^verbatim>\<open>processed_data[:, -1]\<close>: all columns but the last,
  and the last column (IndexError when there is no column).
\<close>

definition all_but_last_column :: "matrix \<Rightarrow> matrix" where
  "all_but_last_column processed_data = map butlast processed_data"

definition last_column :: "matrix \<Rightarrow> exn + real list" where
  "last_column processed_data =
     (if list_ex (\<lambda>row. row = []) processed_data
      then Inl (Exc IndexError ''index -1 is out of bounds for axis 1 with size 0'')
      else Inr (map last processed_data))"

definition recommendation_metric_keys :: "(string \<times> string) list" where
  "recommendation_metric_keys =
     [(''final_loss'', ''loss''), (''final_auc'', ''auc''), (''final_precision'', ''precision''),
      (''final_recall'', ''recall''), (''val_loss'', ''val_loss''), (''val_auc'', ''val_auc'')]"

text \<open>
  \<^verbatim>\<open>RecommendationModel.train\<close> takes the interaction data, the epochs and the batch
  size, and no labels. Every exception leaves the method as a RuntimeError
  \<^verbatim>\<open>Model training failed: ...\<close>; what was assigned before it stays assigned.
\<close>

definition rec_train ::
  "collaborators \<Rightarrow> string \<Rightarrow> RecommendationModel \<Rightarrow> pyinput \<Rightarrow> nat \<Rightarrow> nat
     \<Rightarrow> (exn + (string \<times> real) list) \<times> RecommendationModel" where
  "rec_train lib now m interaction_data epochs batch_size =
     (let wrap = (\<lambda>e. Inl (Exc RuntimeError (''Model training failed: '' @ str_exn e))) in
      case fit_transform lib now (rm_preprocessor m) interaction_data of
        (Inl e, pre) \<Rightarrow> (wrap e, m\<lparr>rm_preprocessor := pre\<rparr>)
      | (Inr processed_data, pre) \<Rightarrow>
          (let m1 = m\<lparr>rm_preprocessor := pre\<rparr>;
               X_train = all_but_last_column processed_data
           in case last_column processed_data of
                Inl e \<Rightarrow> (wrap e, m1)
              | Inr y_train \<Rightarrow>
                  (case keras_fit lib (rm_weights m1) X_train (A1 y_train) epochs batch_size of
                     Inl e \<Rightarrow> (wrap e, m1)
                   | Inr (h, w) \<Rightarrow>
                       (let m2 = m1\<lparr>rm_weights := w, is_trained := True,
                                   rm_training_iterations := rm_training_iterations m1 + 1,
                                   last_trained := Some now\<rparr>
                        in case collect_metrics h recommendation_metric_keys of
                             Inl e \<Rightarrow> (wrap e, m2)
                           | Inr metrics \<Rightarrow>
                               (Inr metrics, m2\<lparr>performance_metrics := metrics\<rparr>)))))"

text \<open>
  \<^verbatim>\<open>RecommendationModel.update\<close> takes the new interactions and no labels either;
  it fits for five epochs with batch size \<^verbatim>\<open>BATCH_SIZE\<close>. Every exception leaves the
  method as a RuntimeError \<^verbatim>\<open>Model update failed: ...\<close>.
\<close>

definition BATCH_SIZE :: nat where
  "BATCH_SIZE = 32"

definition history_first :: "history \<Rightarrow> string \<Rightarrow> exn + real" where
  "history_first h key =
     (case map_of h key of
        None \<Rightarrow> Inl (Exc KeyError key)
      | Some xs \<Rightarrow> (if xs = [] then Inl (Exc IndexError ''list index out of range'')
                     else Inr (hd xs)))"

definition update_metrics :: "history \<Rightarrow> string \<Rightarrow> exn + (real \<times> real \<times> string)" where
  "update_metrics h now =
     (case history_first h ''loss'' of
        Inl e \<Rightarrow> Inl e
      | Inr l0 \<Rightarrow>
          (case history_last h ''loss'' of
             Inl e \<Rightarrow> Inl e
           | Inr l1 \<Rightarrow>
               (case history_last h ''auc'' of
                  Inl e \<Rightarrow> Inl e
                | Inr a1 \<Rightarrow>
                    (case history_first h ''auc'' of
                       Inl e \<Rightarrow> Inl e
                     | Inr a0 \<Rightarrow> Inr (l0 - l1, a1 - a0, now)))))"

definition rec_update ::
  "collaborators \<Rightarrow> string \<Rightarrow> RecommendationModel \<Rightarrow> pyinput
     \<Rightarrow> (exn + (real \<times> real \<times> string)) \<times> RecommendationModel" where
  "rec_update lib now m new_interactions =
     (let wrap = (\<lambda>e. Inl (Exc RuntimeError (''Model update failed: '' @ str_exn e))) in
      case transform lib (rm_preprocessor m) new_interactions of
        (Inl e, pre) \<Rightarrow> (wrap e, m\<lparr>rm_preprocessor := pre\<rparr>)
      | (Inr processed_data, pre) \<Rightarrow>
          (let m1 = m\<lparr>rm_preprocessor := pre\<rparr>;
               X = all_but_last_column processed_data
           in case last_column processed_data of
                Inl e \<Rightarrow> (wrap e, m1)
              | Inr y \<Rightarrow>
                  (case keras_fit lib (rm_weights m1) X (A1 y) 5 BATCH_SIZE of
                     Inl e \<Rightarrow> (wrap e, m1)
                   | Inr (h, w) \<Rightarrow>
                       (let m2 = m1\<lparr>rm_weights := w\<rparr> in
                        case update_metrics h now of
                          Inl e \<Rightarrow> (wrap e, m2)
                        | Inr um \<Rightarrow>
                            (Inr um, m2\<lparr>update_history := update_history m2 @ [um]\<rparr>)))))"
section \<open>Model trainer (services/model\_trainer.py)\<close>

text \<open>
  \<^verbatim>\<open>PersonaModel.save\<close>: the Keras model under \<^verbatim>\<open>path/model\<close> (Keras creates the
  directories it needs; the saved model is one artifact here), the state of the model's
  own preprocessor under \<^verbatim>\<open>path/preprocessor\<close>, and \<^verbatim>\<open>path/model_state.npy\<close>. The
  value \<^verbatim>\<open>save_state\<close> returns is dropped. Any exception is logged and the method
  returns \<^verbatim>\<open>False\<close>.
\<close>

definition persona_save :: "faults \<Rightarrow> PersonaModel \<Rightarrow> path \<Rightarrow> node \<Rightarrow> bool \<times> node" where
  "persona_save flt m p fs =
     (case os_makedirs flt p fs of
        (Inl e, fs1) \<Rightarrow> (False, fs1)
      | (Inr u, fs1) \<Rightarrow>
          (case write_file flt (p @ [''model'']) (KerasBlob (pm_weights m)) fs1 of
             (Inl e, fs2) \<Rightarrow> (False, fs2)
           | (Inr u, fs2) \<Rightarrow>
               (let (ignored, fs3) = save_state flt (pm_preprocessor m) (p @ [''preprocessor'']) fs2
                in case write_file flt (p @ [''model_state.npy''])
                          (NpyBlob (pm_model_state m)) fs3 of
                     (Inl e, fs4) \<Rightarrow> (False, fs4)
                   | (Inr u, fs4) \<Rightarrow> (True, fs4))))"

text \<open>
  The trainer holds a \<^verbatim>\<open>RecommendationModel\<close> for the model type
  \<^verbatim>\<open>recommendation\<close> and a \<^verbatim>\<open>PersonaModel\<close> for the others.
  \<^verbatim>\<open>RecommendationModel\<close> has no \<^verbatim>\<open>save\<close> method: calling it raises AttributeError.
\<close>

datatype model_obj = RecModel RecommendationModel | PerModel PersonaModel

record ModelTrainer =
  mt_env :: string
  mt_model_type :: model_kind
  mt_preprocessor :: DataPreprocessor
  mt_model :: model_obj


fun model_save :: "faults \<Rightarrow> model_obj \<Rightarrow> path \<Rightarrow> node \<Rightarrow> (exn + bool) \<times> node" where
  "model_save flt (RecModel m) p fs =
     (Inl (Exc AttributeError ''RecommendationModel object has no attribute save''), fs)"
| "model_save flt (PerModel m) p fs =
     (case persona_save flt m p fs of (ok, fs') \<Rightarrow> (Inr ok, fs'))"

text \<open>
  The paths of \<^verbatim>\<open>save_model(version)\<close> under \<^verbatim>\<open>MODELS_PATH\<close> (the environment's
  \<^verbatim>\<open>ML_MODELS_PATH\<close>, else \<^verbatim>\<open>models\<close>). The version is one path component: not
  empty, without a separator, neither \<^verbatim>\<open>.\<close> nor \<^verbatim>\<open>..\<close>.
\<close>

definition valid_version :: "string \<Rightarrow> bool" where
  "valid_version version =
     (version \<noteq> [] \<and> CHR ''/'' \<notin> set version \<and> version \<noteq> ''.'' \<and> version \<noteq> ''..'')"

definition temp_path :: "path \<Rightarrow> string \<Rightarrow> path" where
  "temp_path models_path version = models_path @ [''temp_'' @ version]"

definition final_path :: "path \<Rightarrow> string \<Rightarrow> path" where
  "final_path models_path version = models_path @ [version]"

definition backup_path :: "path \<Rightarrow> string \<Rightarrow> path" where
  "backup_path models_path version = models_path @ [version @ ''_backup'']"

definition bundle_metadata :: "ModelTrainer \<Rightarrow> string \<Rightarrow> string \<Rightarrow> pyval" where
  "bundle_metadata mt version now =
     PDict [(''version'', PStr version),
            (''model_type'', PStr (model_type_name (mt_model_type mt))),
            (''environment'', PStr (mt_env mt)),
            (''timestamp'', PStr now),
            (''framework_versions'',
               PDict [(''tensorflow'', PStr ''2.12''), (''numpy'', PStr ''1.23''),
                      (''pandas'', PStr ''1.5'')])]"

text \<open>
  \<^verbatim>\<open>save_model\<close> up to the metadata: the temporary directory, the model, the
  preprocessor, the check of the two results, the metadata.
\<close>

definition write_bundle ::
  "faults \<Rightarrow> string \<Rightarrow> ModelTrainer \<Rightarrow> string \<Rightarrow> path \<Rightarrow> node \<Rightarrow> (exn + unit) \<times> node" where
  "write_bundle flt now mt version tmp fs =
     (case os_makedirs flt tmp fs of
        (Inl e, fs1) \<Rightarrow> (Inl e, fs1)
      | (Inr u, fs1) \<Rightarrow>
          (case model_save flt (mt_model mt) (tmp @ [''model'']) fs1 of
             (Inl e, fs2) \<Rightarrow> (Inl e, fs2)
           | (Inr model_saved, fs2) \<Rightarrow>
               (case save_state flt (mt_preprocessor mt) (tmp @ [''preprocessor'']) fs2 of
                  (preprocessor_saved, fs3) \<Rightarrow>
                    (if \<not> (model_saved \<and> preprocessor_saved)
                     then (Inl (Exc RuntimeError ''Failed to save model artifacts''), fs3)
                     else write_file flt (tmp @ [''metadata.npy''])
                            (NpyBlob (bundle_metadata mt version now)) fs3))))"

text \<open>
  The rest of \<^verbatim>\<open>save_model\<close>: the old bundle aside, the new one in, the backup
  removed with \<^verbatim>\<open>os.remove\<close>.
\<close>

definition install_bundle :: "faults \<Rightarrow> path \<Rightarrow> path \<Rightarrow> path \<Rightarrow> node \<Rightarrow> (exn + unit) \<times> node" where
  "install_bundle flt tmp final backup fs =
     (case (if os_path_exists final fs then os_rename flt final backup fs else (Inr (), fs)) of
        (Inl e, fs1) \<Rightarrow> (Inl e, fs1)
      | (Inr u, fs1) \<Rightarrow>
          (case os_rename flt tmp final fs1 of
             (Inl e, fs2) \<Rightarrow> (Inl e, fs2)
           | (Inr u, fs2) \<Rightarrow>
               (if os_path_exists backup fs2 then os_remove flt backup fs2 else (Inr (), fs2))))"

text \<open>
  \<^verbatim>\<open>save_model\<close>: \<^verbatim>\<open>True\<close> when nothing raised, \<^verbatim>\<open>False\<close> from the handler
  otherwise; the file system is as the last step left it.
\<close>

definition save_model ::
  "faults \<Rightarrow> path \<Rightarrow> string \<Rightarrow> ModelTrainer \<Rightarrow> string \<Rightarrow> node \<Rightarrow> bool \<times> node" where
  "save_model flt models_path now mt version fs =
     (case write_bundle flt now mt version (temp_path models_path version) fs of
        (Inl e, fs1) \<Rightarrow> (False, fs1)
      | (Inr u, fs1) \<Rightarrow>
          (case install_bundle flt (temp_path models_path version)
                  (final_path models_path version) (backup_path models_path version) fs1 of
             (Inl e, fs2) \<Rightarrow> (False, fs2)
           | (Inr u, fs2) \<Rightarrow> (True, fs2)))"

section \<open>Predicates of the statements\<close>

text \<open>A feature vector with a non-zero entry: its norm is not zero.\<close>

definition nonzero :: "real list \<Rightarrow> bool" where
  "nonzero v = list_ex (\<lambda>x. x \<noteq> 0) v"

text \<open>
  The preprocessor's own mark of being fitted, as the guard of \<^verbatim>\<open>transform\<close> reads
  it: \<^verbatim>\<open>preprocessor_state.get('last_updated')\<close> can be read and is true.
\<close>

definition marked_fitted :: "DataPreprocessor \<Rightarrow> bool" where
  "marked_fitted dp =
     (case py_get (preprocessor_state dp) ''last_updated'' of
        Inl e \<Rightarrow> False
      | Inr lu \<Rightarrow> truthy lu)"

text \<open>
  The categorical features a frame has, in the order of \<open>CATEGORICAL_FEATURES\<close>, and
  what it means for \<open>y\<close> to be the encoding of the last of them by its fitted
  encoder.
\<close>

definition present_categorical :: "frame \<Rightarrow> string list" where
  "present_categorical f = filter (\<lambda>name. map_of f (Name name) \<noteq> None) CATEGORICAL_FEATURES"

definition encoded_last_categorical ::
  "collaborators \<Rightarrow> transformers \<Rightarrow> frame \<Rightarrow> real list \<Rightarrow> bool" where
  "encoded_last_categorical lib tr f y =
     (present_categorical f \<noteq> [] \<and>
      (case map_of (categorical tr) (last (present_categorical f)) of
         None \<Rightarrow> False
       | Some enc \<Rightarrow>
           (case map_of f (Name (last (present_categorical f))) of
              None \<Rightarrow> False
            | Some col \<Rightarrow> encoder_transform lib enc col = Inr y)))"

text \<open>Two paths neither of which lies on the way to the other.\<close>

definition apart :: "path \<Rightarrow> path \<Rightarrow> bool" where
  "apart p q = (\<not> prefix p q \<and> \<not> prefix q p)"

text \<open>An environment in which no operation fails.\<close>

definition no_faults :: faults where
  "no_faults = (\<lambda>p. Succeeds)"

section \<open>Example values\<close>

text \<open>
  Collaborators that are simple but do what their names say: the scaler passes the
  numbers through, the encoder numbers the categories in order of first appearance and
  raises on an unseen one, training returns a history with every metric, the persona
  network answers every row with the recommendation \<open>1/4\<close> at confidence \<open>1/4\<close>.
\<close>

fun cell_value :: "cell \<Rightarrow> real" where
  "cell_value (Num x) = x"
| "cell_value _ = 0"

fun class_index :: "cell list \<Rightarrow> cell \<Rightarrow> exn + real" where
  "class_index [] x = Inl (Exc ValueError ''y contains previously unseen labels'')"
| "class_index (c # cs) x =
     (if c = x then Inr 0
      else case class_index cs x of Inl e \<Rightarrow> Inl e | Inr i \<Rightarrow> Inr (i + 1))"

fun encode_all :: "cell list \<Rightarrow> cell list \<Rightarrow> exn + real list" where
  "encode_all cs [] = Inr []"
| "encode_all cs (x # xs) =
     (case class_index cs x of
        Inl e \<Rightarrow> Inl e
      | Inr i \<Rightarrow> (case encode_all cs xs of Inl e \<Rightarrow> Inl e | Inr r \<Rightarrow> Inr (i # r)))"

fun example_encode :: "encoder \<Rightarrow> cell list \<Rightarrow> exn + real list" where
  "example_encode (LabelEncoder None) col = Inl (Exc ValueError ''NotFittedError'')"
| "example_encode (LabelEncoder (Some cs)) col = encode_all cs col"

definition example_history :: history where
  "example_history =
     [(''loss'', [2, 1]), (''recommendations_accuracy'', [1/2, 3/4]),
      (''confidence_accuracy'', [1/2, 1/2]), (''val_loss'', [3, 2]),
      (''auc'', [1/2, 3/4]), (''precision'', [1/2]), (''recall'', [1/2]), (''val_auc'', [1/2])]"

definition example_lib :: collaborators where
  "example_lib =
     \<lparr>scaler_fit = (\<lambda>sc f. Inr (StandardScaler (Some (map (\<lambda>c. (0, 1)) f)))),
      scaler_transform = (\<lambda>sc f. Inr (map (\<lambda>i. map (\<lambda>(l, c). cell_value (c ! i)) f) [0..<nrows f])),
      encoder_fit = (\<lambda>enc col. Inr (LabelEncoder (Some (remdups col)))),
      encoder_transform = example_encode,
      fit_on_texts = (\<lambda>tk d. Inr tk),
      texts_to_sequences = (\<lambda>tk d. Inr (map (\<lambda>i. []) [0..<nrows (content d)])),
      column_summary = (\<lambda>c. Inr (PDict [])),
      tobytes_hash = (\<lambda>f. int (nrows f)),
      keras_fit = (\<lambda>w x y e b. Inr (example_history, w)),
      persona_forward = (\<lambda>w x. Inr ([1/4], 1/4))\<rparr>"


text \<open>
  The same collaborators with a training that shows what it was given: the weights it
  returns are the target followed by the rows of the features.
\<close>

fun flat :: "ndarray \<Rightarrow> real list" where
  "flat (A1 v) = v"
| "flat (A2 rows) = concat rows"

definition recording_lib :: collaborators where
  "recording_lib =
     example_lib\<lparr>keras_fit := (\<lambda>w x y e b. Inr (example_history, flat y @ concat x))\<rparr>"

definition example_frame :: frame where
  "example_frame =
     [(Name ''budget'', [Num 100, Num 300]), (Name ''duration'', [Num 7, Num 3]),
      (Name ''group_size'', [Num 2, Num 4]),
      (Name ''destination_type'', [Txt ''beach'', Txt ''city'']),
      (Name ''travel_style'', [Txt ''luxury'', Txt ''luxury''])]"

definition fitted_preprocessor :: DataPreprocessor where
  "fitted_preprocessor =
     \<lparr>dp_model_type = Recommendation, dp_env = ''development'',
      preprocessor_state = PDict [(''model_type'', PStr ''recommendation''),
        (''created_at'', PStr ''2024-01-01T00:00:00''), (''version'', PStr ''1.0.0''),
        (''last_updated'', PStr ''2024-01-02T00:00:00''), (''statistics'', PDict [])],
      dp_transformers =
        \<lparr>numerical = StandardScaler (Some [(0, 1), (0, 1), (0, 1)]),
         categorical = [(''destination_type'', LabelEncoder (Some [Txt ''city'', Txt ''beach''])),
                        (''travel_style'', LabelEncoder (Some [Txt ''budget'', Txt ''luxury'']))],
         text_tokenizer = Some (Tokenizer MAX_VOCAB_SIZE None)\<rparr>,
      dp_cache = PDict [(''frequent_values'', PDict []), (''statistics'', PDict []),
        (''last_updated'', PNone)]\<rparr>"

definition example_persona :: PersonaModel where
  "example_persona =
     \<lparr>pm_model_config =
        PDict [(''inference_settings'', PDict [(''confidence_threshold'', PFloat (7/10))])],
      pm_preprocessor = fitted_preprocessor,
      pm_model_state = PDict [(''version'', PStr ''1.0.0''), (''env'', PStr ''development''),
        (''training_iterations'', PInt 0), (''last_update'', PNone)],
      pm_weights = [1, 2],
      pm_training_history = None,
      prediction_cache = [(5, (A1 [9/10], A2 [[9/10]]))]\<rparr>"

text \<open>The same persona model after three trainings.\<close>

definition trained_persona :: PersonaModel where
  "trained_persona =
     example_persona\<lparr>pm_model_state :=
        PDict [(''version'', PStr ''1.0.0''), (''env'', PStr ''development''),
               (''training_iterations'', PInt 3), (''last_update'', PFloat 11)]\<rparr>"

definition example_recommender :: RecommendationModel where
  "example_recommender =
     \<lparr>rm_preprocessor = fitted_preprocessor, rm_weights = [1, 2], is_trained = False,
      rm_training_iterations = 0, update_history = [], last_trained = None,
      performance_metrics = []\<rparr>"

text \<open>
  A trainer for the anomaly model type with a persona model, and a models directory
  that holds a bundle for version \<^verbatim>\<open>v1\<close>.
\<close>

definition example_trainer :: ModelTrainer where
  "example_trainer =
     \<lparr>mt_env = ''development'', mt_model_type = Anomaly,
      mt_preprocessor = new_preprocessor Anomaly ''development'' ''2024-01-01T00:00:00'' 10000,
      mt_model = PerModel example_persona\<rparr>"



definition old_bundle :: node where
  "old_bundle = Dir [(''metadata.npy'', File (NpyBlob (PDict [(''version'', PStr ''v1'')])))]"

definition example_fs :: node where
  "example_fs = Dir [(''models'', Dir [(''v1'', old_bundle)])]"

text \<open>
  A saved preprocessor state whose \<^verbatim>\<open>cache.json\<close> is missing, and one row of
  numerical features.
\<close>

definition saved_without_cache :: node where
  "saved_without_cache =
     Dir [(''saved'', Dir [
       (''preprocessor_state.json'', File (JsonBlob (PDict [(''model_type'', PStr ''anomaly''),
          (''created_at'', PStr ''2024-01-01T00:00:00''), (''version'', PStr ''1.0.0''),
          (''last_updated'', PStr ''2024-01-02T00:00:00''), (''statistics'', PDict [])]))),
       (''transformers.pkl'', File (PickleBlob
          \<lparr>numerical = MinMaxScaler (Some [(0, 1), (0, 1), (0, 1)]),
           categorical = [], text_tokenizer = None\<rparr>))])]"

definition numerical_row :: pyinput where
  "numerical_row =
     FrameIn [(Name ''budget'', [Num 1]), (Name ''duration'', [Num 2]),
              (Name ''group_size'', [Num 3])]"

section \<open>Config provider: validation of the required keys\<close>

lemma named_keys_missing_message:
  "named_keys kind (missing_message kind) = required_keys kind"
  by (cases kind)
     (simp_all add: named_keys_def missing_message_def repr_set_def quote_def sublist_code)

lemma all_in_False:
  "\<exists>k \<in> set ks. map_of kv k = None \<Longrightarrow> all_in (PDict kv) ks = Inr False"
  by (induction ks) (auto split: bool.splits)

text \<open>
  C7, as the code has it: when the section of a model type is a mapping that lacks at
  least one required key (and nothing is cached for the type), the getter raises
  ConfigValidationError and returns no configuration, so no required key is defaulted.
  The message is the same whatever is absent: it lists the whole required-key set of
  the model type, hence every absent key, and the required keys that are present too.
\<close>

theorem get_config_missing_required_key:
  assumes "map_of (cache mc) (cache_key kind) = None"
      and "dict_get_default (config mc) (section_name kind) = Inr (PDict kv)"
      and "absent_keys kind kv \<noteq> []"
  shows "get_config kind mc = Inl (Exc ConfigValidationError (missing_message kind))
       \<and> named_keys kind (missing_message kind) = required_keys kind
       \<and> set (absent_keys kind kv) \<subseteq> set (named_keys kind (missing_message kind))"
proof -
  from assms(3) have "\<exists>k \<in> set (required_keys kind). map_of kv k = None"
    by (auto simp: absent_keys_def filter_empty_conv)
  then have "all_in (PDict kv) (required_keys kind) = Inr False"
    by (rule all_in_False)
  then have "validate_config kind (PDict kv)
      = Inl (Exc ConfigValidationError (missing_message kind))"
    by (simp add: validate_config_def)
  with assms(1,2) have "get_config kind mc
      = Inl (Exc ConfigValidationError (missing_message kind))"
    by (simp add: get_config_def)
  moreover have "set (absent_keys kind kv) \<subseteq> set (required_keys kind)"
    by (auto simp: absent_keys_def)
  ultimately show ?thesis
    by (simp add: named_keys_missing_message)
qed

theorem get_config_missing_required_key_witness:
  "get_config Recommendation mc_partial
      = Inl (Exc ConfigValidationError (missing_message Recommendation))
   \<and> named_keys Recommendation (missing_message Recommendation)
      = required_keys Recommendation
   \<and> set (absent_keys Recommendation
        [(''model_architecture'', PDict []), (''hyperparameters'', PDict [])])
      \<subseteq> set (named_keys Recommendation (missing_message Recommendation))"
  using get_config_missing_required_key [of mc_partial Recommendation
      "[(''model_architecture'', PDict []), (''hyperparameters'', PDict [])]"]
  by (simp add: mc_partial_def absent_keys_def)

text \<open>
  C7 as stated fails: with only \<^verbatim>\<open>training_settings\<close> absent, the message of
  \<^verbatim>\<open>get_recommendation_config\<close> names all three required keys, two of which
  are present, so the keys it names are not the keys actually absent.
\<close>

theorem message_names_present_keys:
  "get_recommendation_config mc_partial
      = Inl (Exc ConfigValidationError (missing_message Recommendation))
   \<and> absent_keys Recommendation
        [(''model_architecture'', PDict []), (''hyperparameters'', PDict [])]
      = [''training_settings'']
   \<and> named_keys Recommendation (missing_message Recommendation)
      = [''model_architecture'', ''hyperparameters'', ''training_settings'']"
  by (simp add: get_recommendation_config_def get_config_def mc_partial_def
      validate_config_def absent_keys_def named_keys_missing_message)

section \<open>Config provider: the recursive merge\<close>

lemma merge_items_char:
  assumes "distinct (map fst ov)"
  shows "(case merge_items b ov of
            Inr m \<Rightarrow> (\<forall>k. merged_entry b ov m k) \<and> \<not> nested_fails b ov
          | Inl e \<Rightarrow> nested_fails b ov)"
  using assms
proof (induction ov arbitrary: b)
  case Nil
  show ?case by (auto simp: merged_entry_def nested_fails_def)
next
  case (Cons kv rest)
  obtain key "value" where kv: "kv = (key, value)" by (cases kv)
  from Cons.prems kv have d: "distinct (map fst rest)" and nk: "map_of rest key = None"
    by (auto simp: map_of_eq_None_iff)
  have rest_ne: "\<And>k v. map_of rest k = Some v \<Longrightarrow> k \<noteq> key" using nk by auto
  show ?case
  proof (cases "is_dict value \<and> map_of b key \<noteq> None")
    case False
    let ?b' = "AList.update key value b"
    have step: "merge_items b (kv # rest) = merge_items ?b' rest" using False kv by auto
    have look: "\<And>k. k \<noteq> key \<Longrightarrow> map_of ?b' k = map_of b k" by (simp add: update_conv')
    have nf: "nested_fails b (kv # rest) = nested_fails ?b' rest"
      unfolding nested_fails_def using False kv look rest_ne
      by (auto split: if_splits) (metis+)
    have eo: "\<And>m k. map_of m key = Some value \<Longrightarrow> merged_entry ?b' rest m k
        \<Longrightarrow> merged_entry b (kv # rest) m k"
      unfolding merged_entry_def using False kv look nk
      by (auto split: option.splits if_splits simp: update_conv')
    have key_kept: "\<And>m. merged_entry ?b' rest m key \<Longrightarrow> map_of m key = Some value"
      unfolding merged_entry_def using nk by (simp add: update_conv')
    from Cons.IH[OF d, of ?b'] show ?thesis
      unfolding step nf by (auto split: sum.splits intro: eo key_kept)
  next
    case True
    then obtain bv where bv: "map_of b key = Some bv" by auto
    show ?thesis
    proof (cases "merge_configs bv value")
      case (Inl e)
      then have "merge_items b (kv # rest) = Inl e" using True kv bv by simp
      moreover have "nested_fails b (kv # rest)"
        unfolding nested_fails_def using True kv bv Inl
        by (intro exI[of _ key] exI[of _ "value"] exI[of _ bv]) simp
      ultimately show ?thesis by simp
    next
      case (Inr r)
      let ?b' = "AList.update key r b"
      have step: "merge_items b (kv # rest) = merge_items ?b' rest"
        using True kv bv Inr by simp
      have look: "\<And>k. k \<noteq> key \<Longrightarrow> map_of ?b' k = map_of b k" by (simp add: update_conv')
      have nf: "nested_fails b (kv # rest) = nested_fails ?b' rest"
        unfolding nested_fails_def using True kv bv Inr look rest_ne
        by (auto split: if_splits) (metis+)
      have eo: "\<And>m k. map_of m key = Some r \<Longrightarrow> merged_entry ?b' rest m k
          \<Longrightarrow> merged_entry b (kv # rest) m k"
        unfolding merged_entry_def using True kv bv Inr look nk
        by (auto split: option.splits if_splits simp: update_conv')
      have key_kept: "\<And>m. merged_entry ?b' rest m key \<Longrightarrow> map_of m key = Some r"
        unfolding merged_entry_def using nk by (simp add: update_conv')
      from Cons.IH[OF d, of ?b'] show ?thesis
        unfolding step nf by (auto split: sum.splits intro: eo key_kept)
    qed
  qed
qed

text \<open>
  What \<^verbatim>\<open>_merge_configs\<close> does for a base and an override mapping (the override's
  keys distinct, as a dict's are): when it returns, every key of the result is as
  \<open>merged_entry\<close> says, the recursive merge for a dict-valued override key that the
  base has, the override's value for any other override key, the base's value for a key
  of the base alone; and it raises exactly when one of those recursive merges raises.
\<close>

theorem merge_configs_recursive_override:
  assumes "distinct (map fst ov)"
  shows "case merge_configs (PDict b) (PDict ov) of
           Inr m \<Rightarrow> (\<exists>kv. m = PDict kv \<and> (\<forall>k. merged_entry b ov kv k))
                      \<and> \<not> nested_fails b ov
         | Inl e \<Rightarrow> nested_fails b ov"
  using merge_items_char [OF assms, of b]
  by (auto split: sum.splits)

theorem merge_configs_recursive_override_witness:
  "merge_configs
     (PDict [(''env'', PStr ''base''), (''training'', PDict [(''epochs'', PInt 100), (''batch'', PInt 32)])])
     (PDict [(''training'', PDict [(''epochs'', PInt 5)]), (''debug'', PBool True)])
   = Inr (PDict [(''env'', PStr ''base''),
                 (''training'', PDict [(''epochs'', PInt 5), (''batch'', PInt 32)]),
                 (''debug'', PBool True)])
   \<and> (\<forall>k. merged_entry
          [(''env'', PStr ''base''), (''training'', PDict [(''epochs'', PInt 100), (''batch'', PInt 32)])]
          [(''training'', PDict [(''epochs'', PInt 5)]), (''debug'', PBool True)]
          [(''env'', PStr ''base''),
           (''training'', PDict [(''epochs'', PInt 5), (''batch'', PInt 32)]),
           (''debug'', PBool True)] k)"
  using merge_configs_recursive_override
    [of "[(''training'', PDict [(''epochs'', PInt 5)]), (''debug'', PBool True)]"
        "[(''env'', PStr ''base''), (''training'', PDict [(''epochs'', PInt 100), (''batch'', PInt 32)])]"]
  by simp

text \<open>
  C6 fails on the code where the override has a dict under a key that the base has with
  a value that is not a dict: \<^verbatim>\<open>_merge_configs\<close> recurses on the base's value
  whatever it is, and \<^verbatim>\<open>base.copy()\<close> raises AttributeError on a number or on
  \<^verbatim>\<open>None\<close> (on a list, the first item raises TypeError). No merged mapping is
  returned and the override's value does not replace the base's.
\<close>

theorem merge_configs_dict_over_scalar_raises:
  "merge_configs (PDict [(''env'', PStr ''base''), (''training'', PInt 1)])
                 (PDict [(''training'', PDict [(''epochs'', PInt 5)])])
     = Inl (Exc AttributeError ''copy'')
   \<and> merge_configs (PDict [(''training'', PNone)])
                   (PDict [(''training'', PDict [(''epochs'', PInt 5)])])
     = Inl (Exc AttributeError ''copy'')
   \<and> merge_configs (PDict [(''training'', PList [PInt 1])])
                   (PDict [(''training'', PDict [(''epochs'', PInt 5)])])
     = Inl (Exc TypeError ''list indices must be integers or slices, not str'')"
  by simp

section \<open>Feature preprocessor: the guard of transform\<close>

lemma transform_unmarked:
  assumes "\<not> marked_fitted dp"
  shows "\<exists>msg. transform lib dp data = (Inl (Exc PreprocessingError msg), dp)"
  using assms
  by (cases "py_get (preprocessor_state dp) ''last_updated''")
     (simp_all add: transform_def marked_fitted_def)

lemma new_preprocessor_unmarked:
  "\<not> marked_fitted (new_preprocessor kind environment now vocab)"
  by (simp add: marked_fitted_def new_preprocessor_def)

lemma py_setitem_other_key:
  "py_setitem st k v = Inr st' \<Longrightarrow> k \<noteq> k' \<Longrightarrow> py_get st' k' = py_get st k'"
  by (cases st) (auto simp: update_conv')

lemma update_statistics_keeps_mark:
  "py_get (update_statistics lib now data st) ''last_updated'' = py_get st ''last_updated''"
proof -
  have set: "\<And>s st'. py_setitem st ''statistics'' s = Inr st'
      \<Longrightarrow> py_get st' ''last_updated'' = py_get st ''last_updated''"
    by (erule py_setitem_other_key) simp
  have "\<And>s. py_get (case py_setitem st ''statistics'' s of Inl e \<Rightarrow> st | Inr st' \<Rightarrow> st')
      ''last_updated'' = py_get st ''last_updated''"
    by (simp add: set split: sum.splits)
  then show ?thesis
    by (simp add: update_statistics_def Let_def split: sum.splits pyinput.splits)
qed

lemma fit_transform_failed_unmarked:
  assumes "\<not> marked_fitted dp" and "fit_transform lib now dp data = (Inl e, dp')"
  shows "\<not> marked_fitted dp'"
proof -
  from assms(2) have "preprocessor_state dp' = preprocessor_state dp
      \<or> (\<exists>d. preprocessor_state dp' = update_statistics lib now d (preprocessor_state dp))"
    by (auto simp: fit_transform_def Let_def split: sum.splits prod.splits)
  then have "py_get (preprocessor_state dp') ''last_updated''
      = py_get (preprocessor_state dp) ''last_updated''"
    by (auto simp: update_statistics_keeps_mark)
  with assms(1) show ?thesis by (simp add: marked_fitted_def)
qed

text \<open>
  C2, as the code has it: a preprocessor that does not carry the mark of a fit (a true
  \<^verbatim>\<open>last_updated\<close> in its state record) fails every \<^verbatim>\<open>transform\<close> with a
  PreprocessingError and stays exactly as it was, so nothing is fitted on the way. A
  freshly constructed preprocessor carries no mark, and a \<^verbatim>\<open>fit_transform\<close> that
  fails leaves an unmarked preprocessor unmarked.
\<close>

theorem transform_unfitted_raises:
  "\<not> marked_fitted (new_preprocessor kind environment now vocab)
   \<and> (\<not> marked_fitted dp \<longrightarrow>
        (\<exists>msg. transform lib dp data = (Inl (Exc PreprocessingError msg), dp))
        \<and> (\<forall>e dp'. fit_transform lib now' dp data' = (Inl e, dp') \<longrightarrow> \<not> marked_fitted dp'))"
  using new_preprocessor_unmarked transform_unmarked fit_transform_failed_unmarked
  by blast

theorem transform_unfitted_raises_witness:
  "\<not> marked_fitted (new_preprocessor Recommendation ''development'' ''2024-01-01T00:00:00'' 10000)
   \<and> transform example_lib
        (new_preprocessor Recommendation ''development'' ''2024-01-01T00:00:00'' 10000)
        (FrameIn example_frame)
      = (Inl (Exc PreprocessingError
               ''Transform failed: Preprocessor must be fitted before transform''),
         new_preprocessor Recommendation ''development'' ''2024-01-01T00:00:00'' 10000)"
  using transform_unfitted_raises [of Recommendation "''development''" "''2024-01-01T00:00:00''"
      10000 "new_preprocessor Recommendation ''development'' ''2024-01-01T00:00:00'' 10000"
      example_lib "FrameIn example_frame"]
  by (simp add: transform_def new_preprocessor_def)

text \<open>
  C2 as stated fails: a fresh preprocessor whose only call so far is a
  \<^verbatim>\<open>load_state\<close> that returned \<^verbatim>\<open>False\<close> (the state file and the transformers were
  read, \<^verbatim>\<open>cache.json\<close> is missing) has had no successful \<^verbatim>\<open>fit_transform\<close> and no
  successful state load, and its \<^verbatim>\<open>transform\<close> returns a result.
\<close>

theorem transform_after_failed_load:
  "fst (load_state (new_preprocessor Anomaly ''development'' ''2024-03-01T00:00:00'' 10000)
          [''saved''] saved_without_cache) = False
   \<and> fst (transform example_lib
            (snd (load_state (new_preprocessor Anomaly ''development'' ''2024-03-01T00:00:00'' 10000)
                    [''saved''] saved_without_cache))
            numerical_row)
      = Inr [[1, 2, 3]]"
  by (simp add: load_state_def read_file_def saved_without_cache_def transform_def
      new_preprocessor_def numerical_row_def process_anomaly_data_def NUMERICAL_FEATURES_def
      frame_col_def example_lib_def nrows_def)

section \<open>Persona model: training and prediction\<close>

lemma py_setitem_index:
  "py_setitem st k v = Inr st' \<Longrightarrow> py_index st' k' = (if k' = k then Inr v else py_index st k')"
  by (cases st) (auto simp: update_conv')

lemma py_add_one_cases:
  assumes "py_add_one it = Inr it'"
  shows "(\<exists>i. it = PInt i \<and> it' = PInt (i + 1))
       \<or> (\<exists>r. it = PFloat r \<and> it' = PFloat (r + 1))
       \<or> (\<exists>b. it = PBool b \<and> it' = PInt ((if b then 1 else 0) + 1))"
  using assms by (cases it) auto

lemma train_success:
  assumes "train lib now ts m X y epochs batch_size incremental = (Inr metrics, m')"
  shows "prediction_cache m' = []
       \<and> (\<exists>it it'. py_index (pm_model_state m) ''training_iterations'' = Inr it
            \<and> py_add_one it = Inr it'
            \<and> py_index (pm_model_state m') ''training_iterations'' = Inr it')"
  using assms
  by (auto simp: train_def Let_def py_setitem_index split: prod.splits sum.splits if_splits)

text \<open>
  C5: when \<^verbatim>\<open>PersonaModel.train\<close> returns its metrics (incremental or not), the
  prediction cache of the model is empty, whatever it held before, and
  \<^verbatim>\<open>training_iterations\<close> holds its old value plus one: the integer \<open>i + 1\<close> for
  the integer \<open>i\<close>, the float \<open>r + 1\<close> for a float \<open>r\<close> that a loaded state may
  hold, and the integer \<open>1\<close> or \<open>2\<close> for \<^verbatim>\<open>False\<close> or \<^verbatim>\<open>True\<close>.
\<close>

theorem train_success_clears_cache:
  assumes "fst (train lib now ts m X y epochs batch_size incremental) = Inr metrics"
  shows "prediction_cache (snd (train lib now ts m X y epochs batch_size incremental)) = []
       \<and> ((\<exists>i. py_index (pm_model_state m) ''training_iterations'' = Inr (PInt i)
              \<and> py_index (pm_model_state
                     (snd (train lib now ts m X y epochs batch_size incremental)))
                    ''training_iterations'' = Inr (PInt (i + 1)))
          \<or> (\<exists>r. py_index (pm_model_state m) ''training_iterations'' = Inr (PFloat r)
              \<and> py_index (pm_model_state
                     (snd (train lib now ts m X y epochs batch_size incremental)))
                    ''training_iterations'' = Inr (PFloat (r + 1)))
          \<or> (\<exists>b. py_index (pm_model_state m) ''training_iterations'' = Inr (PBool b)
              \<and> py_index (pm_model_state
                     (snd (train lib now ts m X y epochs batch_size incremental)))
                    ''training_iterations'' = Inr (PInt ((if b then 1 else 0) + 1))))"
proof -
  obtain r m' where t: "train lib now ts m X y epochs batch_size incremental = (r, m')"
    by (cases "train lib now ts m X y epochs batch_size incremental")
  with assms have t': "train lib now ts m X y epochs batch_size incremental = (Inr metrics, m')"
    by simp
  from train_success[OF t'] obtain it it' where
    c: "prediction_cache m' = []"
    and old: "py_index (pm_model_state m) ''training_iterations'' = Inr it"
    and add: "py_add_one it = Inr it'"
    and new: "py_index (pm_model_state m') ''training_iterations'' = Inr it'" by blast
  from py_add_one_cases[OF add] old new c t' show ?thesis by auto
qed

lemma example_transform:
  "transform example_lib fitted_preprocessor (ArrayIn example_frame)
     = (Inr [[100, 7, 2, 1, 1], [300, 3, 4, 0, 1]], fitted_preprocessor)"
  by (simp add: transform_def fitted_preprocessor_def example_frame_def example_lib_def
      process_recommendation_data_def transform_recommendation_def NUMERICAL_FEATURES_def
      CATEGORICAL_FEATURES_def frame_col_def hstack_def nrows_def upt_rec)

lemma example_train:
  "train example_lib ''2024-03-03T00:00:00'' 17 trained_persona (ArrayIn example_frame)
       (A2 [[1], [0]]) 2 32 True
     = (Inr [(''loss'', 1), (''accuracy'', 3 / 4), (''confidence_accuracy'', 1 / 2), (''val_loss'', 2)],
        trained_persona\<lparr>pm_model_state := PDict [(''version'', PStr ''1.0.0''),
              (''env'', PStr ''development''), (''training_iterations'', PInt 4),
              (''last_update'', PFloat 17)],
           pm_training_history := Some example_history, prediction_cache := []\<rparr>)"
proof -
  have t: "transform example_lib (pm_preprocessor trained_persona) (ArrayIn example_frame)
     = (Inr [[100, 7, 2, 1, 1], [300, 3, 4, 0, 1]], fitted_preprocessor)"
    using example_transform by (simp add: trained_persona_def example_persona_def)
  have f: "keras_fit example_lib = (\<lambda>w x y e b. Inr (example_history, w))"
    by (simp add: example_lib_def)
  have s: "pm_model_state trained_persona = PDict [(''version'', PStr ''1.0.0''),
              (''env'', PStr ''development''), (''training_iterations'', PInt 3),
              (''last_update'', PFloat 11)]"
     and p: "pm_preprocessor trained_persona = fitted_preprocessor"
    by (simp_all add: trained_persona_def example_persona_def)
  have c: "collect_metrics example_history persona_metric_keys
      = Inr [(''loss'', 1), (''accuracy'', 3 / 4), (''confidence_accuracy'', 1 / 2), (''val_loss'', 2)]"
    by (simp add: example_history_def persona_metric_keys_def history_last_def)
  show ?thesis
    by (simp add: train_def t f s c) (simp add: p[symmetric])
qed

theorem train_success_clears_cache_witness:
  "prediction_cache trained_persona = [(5, (A1 [9/10], A2 [[9/10]]))]
   \<and> prediction_cache (snd (train example_lib ''2024-03-03T00:00:00'' 17 trained_persona
        (ArrayIn example_frame) (A2 [[1], [0]]) 2 32 True)) = []
   \<and> py_index (pm_model_state trained_persona) ''training_iterations'' = Inr (PInt 3)
   \<and> py_index (pm_model_state (snd (train example_lib ''2024-03-03T00:00:00'' 17 trained_persona
        (ArrayIn example_frame) (A2 [[1], [0]]) 2 32 True))) ''training_iterations'' = Inr (PInt 4)"
  using train_success_clears_cache [of example_lib "''2024-03-03T00:00:00''" 17 trained_persona
      "ArrayIn example_frame" "A2 [[1], [0]]" 2 32 True
      "[(''loss'', 1), (''accuracy'', 3 / 4), (''confidence_accuracy'', 1 / 2), (''val_loss'', 2)]"]
  by (simp add: example_train) (simp add: trained_persona_def example_persona_def)

lemma forward_rows_length:
  "forward_rows lib w x = Inr (rs, cs) \<Longrightarrow> length rs = length x \<and> length cs = length x"
  by (induction x arbitrary: rs cs) (auto split: sum.splits prod.splits)

lemma model_predict_nonempty:
  "model_predict lib w x = Inr (rs, cs) \<Longrightarrow> rs \<noteq> [] \<and> length cs = length rs"
  using forward_rows_length[of lib w x rs cs]
  by (auto simp: model_predict_def split: if_splits)

text \<open>
  The fallback of \<^verbatim>\<open>PersonaModel.predict\<close>, where it is reached: in a call that is
  not answered from the cache and in which the threshold filter runs and selects
  nothing, the result is the full array of recommendations the network returned, which
  has at least one row, together with a confidence array of the same shape whose every
  entry is \<open>1/2\<close>. The filter runs only when the recommendations have one column, as
  the confidence has.
\<close>

theorem predict_fallback:
  assumes "cache_key_of lib user_preferences = Inr key"
      and "(if use_cache then map_of (prediction_cache m) key else None) = None"
      and "transform lib (pm_preprocessor m) user_preferences = (Inr processed_input, pre)"
      and "model_predict lib (pm_weights m) processed_input = Inr (recommendations, confidence)"
      and "confidence_threshold (pm_model_config m) = Inr t"
      and "boolean_index recommendations (threshold_mask confidence t) = Inr []"
  shows "fst (predict lib m user_preferences use_cache)
           = Inr (A2 recommendations, A2 (map (map (\<lambda>c. 1 / 2)) confidence))
       \<and> recommendations \<noteq> []
       \<and> length confidence = length recommendations"
  using assms model_predict_nonempty[OF assms(4)]
  by (simp add: predict_def Let_def)

theorem predict_fallback_witness:
  "fst (predict example_lib (example_persona\<lparr>prediction_cache := []\<rparr>) (ArrayIn example_frame) True)
     = Inr (A2 [[1/4], [1/4]], A2 [[1/2], [1/2]])"
proof -
  let ?m = "example_persona\<lparr>prediction_cache := []\<rparr>"
  have k: "cache_key_of example_lib (ArrayIn example_frame) = Inr 2"
    by (simp add: cache_key_of_def example_lib_def example_frame_def nrows_def)
  have c: "(if True then map_of (prediction_cache ?m) 2 else None) = None" by simp
  have t: "transform example_lib (pm_preprocessor ?m) (ArrayIn example_frame)
     = (Inr [[100, 7, 2, 1, 1], [300, 3, 4, 0, 1]], fitted_preprocessor)"
    using example_transform by (simp add: example_persona_def)
  have p: "model_predict example_lib (pm_weights ?m) [[100, 7, 2, 1, 1], [300, 3, 4, 0, 1]]
     = Inr ([[1/4], [1/4]], [[1/4], [1/4]])"
    by (simp add: model_predict_def example_lib_def)
  have th: "confidence_threshold (pm_model_config ?m) = Inr (7/10)"
    by (simp add: confidence_threshold_def example_persona_def of_rat_divide)
  have b: "boolean_index [[1/4], [1/4]] (threshold_mask [[1/4], [1/4]] (7/10)) = Inr []"
    by (simp add: boolean_index_def threshold_mask_def same_shape_def)
  from predict_fallback [OF k c t p th b] show ?thesis by simp
qed

text \<open>
  When some recommendation row the network returns has not exactly one column, the
  boolean index of line 325 raises IndexError, whatever the confidences are, and
  \<^verbatim>\<open>predict\<close> raises RuntimeError: neither the filter nor the fallback is reached.
\<close>

lemma forward_rows_confidence_shape:
  "forward_rows lib w x = Inr (rs, cs) \<Longrightarrow> map length cs = map (\<lambda>r. 1) rs"
  by (induction x arbitrary: rs cs) (auto split: sum.splits prod.splits)

lemma predict_wide_output_raises:
  assumes "cache_key_of lib user_preferences = Inr key"
      and "(if use_cache then map_of (prediction_cache m) key else None) = None"
      and "transform lib (pm_preprocessor m) user_preferences = (Inr processed_input, pre)"
      and "model_predict lib (pm_weights m) processed_input = Inr (recommendations, confidence)"
      and "confidence_threshold (pm_model_config m) = Inr t"
      and "list_ex (\<lambda>row. length row \<noteq> 1) recommendations"
  shows "fst (predict lib m user_preferences use_cache)
           = Inl (Exc RuntimeError
                   (''Model prediction failed: '' @ ''boolean index did not match indexed array''))"
proof -
  from assms(4) have "forward_rows lib (pm_weights m) processed_input
      = Inr (recommendations, confidence)"
    by (auto simp: model_predict_def split: if_splits)
  from forward_rows_confidence_shape[OF this]
  have shape: "map length confidence = map (\<lambda>r. 1) recommendations" .
  have "\<not> same_shape recommendations (threshold_mask confidence t)"
  proof
    assume "same_shape recommendations (threshold_mask confidence t)"
    then have "map length recommendations = map length confidence"
      by (simp add: same_shape_def threshold_mask_def comp_def)
    with shape have "map length recommendations = map (\<lambda>r. 1) recommendations" by simp
    then have "\<forall>row\<in>set recommendations. length row = 1" by (simp add: map_eq_conv)
    with assms(6) show False by (auto simp: list_ex_iff)
  qed
  then have "boolean_index recommendations (threshold_mask confidence t)
      = Inl (Exc IndexError ''boolean index did not match indexed array'')"
    by (simp add: boolean_index_def)
  with assms(1-5) show ?thesis by (simp add: predict_def Let_def)
qed

section \<open>Recommendation model: diversity selection\<close>

lemma sum_squares_nonneg: "0 \<le> sum_list (map (\<lambda>x. x\<^sup>2) (a :: real list))"
  by (induction a) auto

lemma sum_squares_zero_iff: "sum_list (map (\<lambda>x. x\<^sup>2) (a :: real list)) = 0 \<longleftrightarrow> (\<forall>x\<in>set a. x = 0)"
proof (induction a)
  case Nil then show ?case by simp
next
  case (Cons x xs)
  have "x\<^sup>2 + sum_list (map (\<lambda>x. x\<^sup>2) xs) = 0 \<longleftrightarrow> x\<^sup>2 = 0 \<and> sum_list (map (\<lambda>x. x\<^sup>2) xs) = 0"
    using sum_squares_nonneg[of xs] by (intro add_nonneg_eq_0_iff) auto
  with Cons show ?case by simp
qed

lemma norm2_zero_iff: "norm2 a = 0 \<longleftrightarrow> (\<forall>x\<in>set a. x = 0)"
  using sum_squares_zero_iff[of a] by (simp add: norm2_def)

lemma cosine_Fin: "nonzero a \<Longrightarrow> nonzero b \<Longrightarrow> is_Fin (cosine a b)"
  by (auto simp: cosine_def nonzero_def norm2_zero_iff list_ex_iff)

lemma foldl_fl_add_Fin: "list_all is_Fin xs \<Longrightarrow> is_Fin (foldl fl_add (Fin s) xs)"
proof (induction xs arbitrary: s)
  case Nil then show ?case by simp
next
  case (Cons x xs)
  then obtain r where "x = Fin r" by (cases x) auto
  with Cons show ?case by simp
qed

lemma np_mean_Fin: "xs \<noteq> [] \<Longrightarrow> list_all is_Fin xs \<Longrightarrow> is_Fin (np_mean xs)"
proof -
  assume ne: "xs \<noteq> []" and fin: "list_all is_Fin xs"
  from foldl_fl_add_Fin[OF fin, of 0] obtain r where "fl_sum xs = Fin r"
    by (cases "fl_sum xs") (auto simp: fl_sum_def)
  with ne show ?thesis by (simp add: np_mean_def)
qed

lemma calculate_diversity_Fin:
  assumes "nonzero v" and "case sel of None \<Rightarrow> True | Some s \<Rightarrow> s \<noteq> [] \<and> list_all nonzero s"
  shows "is_Fin (calculate_diversity v sel)"
proof (cases sel)
  case None then show ?thesis by (simp add: calculate_diversity_def)
next
  case (Some s)
  with assms have "s \<noteq> []" "list_all nonzero s" by auto
  then have "is_Fin (np_mean (map (cosine v) s))"
    using assms(1) by (intro np_mean_Fin) (auto simp: list_all_iff cosine_Fin)
  then obtain r where "np_mean (map (cosine v) s) = Fin r" by (cases "np_mean (map (cosine v) s)") auto
  with Some show ?thesis by (simp add: calculate_diversity_def fl_sub_def)
qed

lemma candidate_score_Fin:
  assumes "list_all nonzero features" "i < length features" "\<forall>j\<in>set sel. j < length features"
  shows "is_Fin (candidate_score predictions features sel i)"
proof -
  have "is_Fin (calculate_diversity (features ! i)
          (if sel = [] then None else Some (map (\<lambda>j. features ! j) sel)))"
    using assms by (intro calculate_diversity_Fin) (auto simp: list_all_iff)
  then obtain r where "calculate_diversity (features ! i)
          (if sel = [] then None else Some (map (\<lambda>j. features ! j) sel)) = Fin r"
    by (cases "calculate_diversity (features ! i)
          (if sel = [] then None else Some (map (\<lambda>j. features ! j) sel))") auto
  then show ?thesis by (simp add: candidate_score_def)
qed


lemma scan_candidates_spec:
  assumes "\<forall>i\<in>set xs. i < M \<and> (i \<notin> set sel \<longrightarrow> i < length features \<and> is_Fin (candidate_score p features sel i))"
      and "best = (NegInf, None) \<or> (\<exists>x j. best = (Fin x, Some j) \<and> j \<notin> set sel \<and> j < M)"
  shows "\<exists>bs bi. scan_candidates p features sel xs best = Inr (bs, bi) \<and>
           ((bs, bi) = (NegInf, None) \<and> best = (NegInf, None) \<and> (\<forall>i\<in>set xs. i \<in> set sel)
            \<or> (\<exists>x j. (bs, bi) = (Fin x, Some j) \<and> j \<notin> set sel \<and> j < M))"
  using assms
proof (induction xs arbitrary: best)
  case Nil
  then show ?case by (cases best) auto
next
  case (Cons i rest)
  obtain bscore bidx where best: "best = (bscore, bidx)" by (cases best)
  have rest: "\<forall>i\<in>set rest. i < M \<and> (i \<notin> set sel \<longrightarrow> i < length features \<and> is_Fin (candidate_score p features sel i))"
    using Cons.prems(1) by simp
  show ?case
  proof (cases "i \<in> set sel")
    case True
    with Cons.IH[OF rest Cons.prems(2)] best show ?thesis by auto
  next
    case False
    with Cons.prems(1) have i: "i < length features" "i < M"
      and "is_Fin (candidate_score p features sel i)" by auto
    then obtain s where s: "candidate_score p features sel i = Fin s"
      by (cases "candidate_score p features sel i") auto
    show ?thesis
    proof (cases "fl_gt (Fin s) bscore")
      case True
      have "(Fin s, Some i) = (NegInf, None) \<or> (\<exists>x j. (Fin s, Some i) = (Fin x, Some j) \<and> j \<notin> set sel \<and> j < M)"
        using False i by simp
      from Cons.IH[OF rest this] True False i s best show ?thesis by auto
    next
      case F: False
      with Cons.prems(2) best have b2: "\<exists>x j. best = (Fin x, Some j) \<and> j \<notin> set sel \<and> j < M" by auto
      then have "best = (NegInf, None) \<or> (\<exists>x j. best = (Fin x, Some j) \<and> j \<notin> set sel \<and> j < M)" by simp
      from Cons.IH[OF rest this] b2 F False i s best show ?thesis by auto
    qed
  qed
qed

lemma best_candidate_some:
  assumes nz: "list_all nonzero features"
      and len: "length predictions \<le> length features"
      and sel: "\<forall>j\<in>set sel. j < length predictions"
      and free: "\<exists>i < length predictions. i \<notin> set sel"
  shows "\<exists>j. best_candidate predictions features sel = Inr (Some j) \<and> j \<notin> set sel \<and> j < length predictions"
proof -
  have "\<forall>i\<in>set [0..<length predictions]. i < length predictions \<and>
     (i \<notin> set sel \<longrightarrow> i < length features \<and> is_Fin (candidate_score predictions features sel i))"
    using nz len sel by (auto intro!: candidate_score_Fin)
  from scan_candidates_spec[OF this, of "(NegInf, None)"] free
  show ?thesis by (auto simp: best_candidate_def)
qed

lemma select_loop_terminates:
  assumes nz: "list_all nonzero features"
      and len: "length predictions \<le> length features"
      and n: "n \<le> int (length predictions)"
      and d: "distinct sel"
      and sel: "\<forall>j\<in>set sel. j < length predictions"
      and le: "int (length sel) \<le> n"
  shows "\<exists>res. select_loop predictions features n sel = Some (Inr res) \<and> distinct res
           \<and> (\<forall>j\<in>set res. j < length predictions) \<and> int (length res) = n"
  using d sel le
proof (induction "nat n - length sel" arbitrary: sel)
  case 0
  then have "int (length sel) = n" by linarith
  with 0 show ?case by (subst select_loop.simps) auto
next
  case (Suc k)
  then have lt: "int (length sel) < n" by linarith
  have "card (set sel) < card {..<length predictions}"
    using lt n Suc.prems(1) by (simp add: distinct_card)
  moreover have "set sel \<subseteq> {..<length predictions}" using Suc.prems(2) by auto
  ultimately have "\<exists>i < length predictions. i \<notin> set sel"
    by (metis lessThan_iff subsetI subset_antisym less_irrefl)
  from best_candidate_some[OF nz len Suc.prems(2) this]
  obtain j where j: "best_candidate predictions features sel = Inr (Some j)" "j \<notin> set sel"
    "j < length predictions" by auto
  have "k = nat n - length (sel @ [j])" using Suc.hyps(2) by simp
  moreover have "distinct (sel @ [j])" using Suc.prems(1) j by simp
  moreover have "\<forall>i\<in>set (sel @ [j]). i < length predictions" using Suc.prems(2) j by simp
  moreover have "int (length (sel @ [j])) \<le> n" using lt by simp
  ultimately obtain res where "select_loop predictions features n (sel @ [j]) = Some (Inr res)"
     "distinct res" "\<forall>j\<in>set res. j < length predictions" "int (length res) = n"
    using Suc.hyps(1) by blast
  with lt j show ?case by (subst select_loop.simps) auto
qed

lemma select_loop_stuck:
  assumes "best_candidate p f sel = Inr None" and "int (length sel) < n"
  shows "select_loop p f n sel = None"
proof (rule ccontr)
  assume "select_loop p f n sel \<noteq> None"
  then obtain y where y: "select_loop p f n sel = Some y" by auto
  have "\<not> (p = p \<and> f = f \<and> n = n \<and> sel = sel)"
    by (rule select_loop.raw_induct[where P = "\<lambda>p' f' n' sel' y. \<not> (p' = p \<and> f' = f \<and> n' = n \<and> sel' = sel)", OF _ y])
       (use assms in \<open>auto split: if_splits; blast\<close>)
  then show False by simp
qed


lemma select_loop_single: "select_loop [p] [f] 1 [] = Some (Inr [0])"
proof -
  have b: "best_candidate [p] [f] [] = Inr (Some 0)"
    by (simp add: best_candidate_def candidate_score_def calculate_diversity_def)
  have "select_loop [p] [f] 1 [] = select_loop [p] [f] 1 [0]"
    by (subst select_loop.simps) (simp add: b)
  also have "\<dots> = Some (Inr [0])"
    by (subst select_loop.simps) simp
  finally show ?thesis .
qed

text \<open>
  The part of C4 that holds: when every feature vector of the pool is non-zero (so that
  every cosine similarity is a number), the pool has \<open>M\<close> candidates and
  \<open>0 \<le> N \<le> M\<close>, the selection loop ends and returns exactly \<open>N\<close> indices,
  pairwise distinct and within the pool, and \<^verbatim>\<open>_enhance_diversity\<close> returns the
  predictions at those indices. A candidate scored while nothing is selected has
  diversity exactly 1, and a pool of one candidate gives that candidate, whatever its
  features.
\<close>

theorem enhance_diversity_selects_n:
  assumes "list_all nonzero features"
      and "length predictions \<le> length features"
      and "0 \<le> n" and "n \<le> int (length predictions)"
  shows "(\<exists>sel. select_loop predictions features n [] = Some (Inr sel)
            \<and> int (length sel) = n \<and> distinct sel
            \<and> list_all (\<lambda>j. j < length predictions) sel
            \<and> enhance_diversity predictions features n
                 = Some (Inr (map (\<lambda>i. predictions ! i) sel)))
       \<and> calculate_diversity v None = Fin 1
       \<and> select_loop [p] [f] 1 [] = Some (Inr [0])"
proof -
  from select_loop_terminates [OF assms(1) assms(2) assms(4), of "[]"] assms(3)
  obtain sel where sel: "select_loop predictions features n [] = Some (Inr sel)"
    "distinct sel" "\<forall>j\<in>set sel. j < length predictions" "int (length sel) = n"
    by auto
  then have "enhance_diversity predictions features n
      = Some (Inr (map (\<lambda>i. predictions ! i) sel))"
    by (simp add: enhance_diversity_def)
  with sel have "\<exists>sel. select_loop predictions features n [] = Some (Inr sel)
            \<and> int (length sel) = n \<and> distinct sel
            \<and> list_all (\<lambda>j. j < length predictions) sel
            \<and> enhance_diversity predictions features n
                 = Some (Inr (map (\<lambda>i. predictions ! i) sel))"
    by (auto simp: list_all_iff)
  then show ?thesis
    by (simp add: calculate_diversity_def select_loop_single)
qed

theorem enhance_diversity_selects_n_witness:
  "list_all nonzero [[1, 0], [0, 1], [1, 1]]
   \<and> (\<exists>sel. select_loop [9/10, 1/10, 1/2] [[1, 0], [0, 1], [1, 1]] 2 [] = Some (Inr sel)
         \<and> int (length sel) = 2 \<and> distinct sel
         \<and> enhance_diversity [9/10, 1/10, 1/2] [[1, 0], [0, 1], [1, 1]] 2
              = Some (Inr (map (\<lambda>i. [9/10, 1/10, 1/2] ! i) sel)))"
  using enhance_diversity_selects_n [where features = "[[1, 0], [0, 1], [1, 1]]"
      and predictions = "[9/10, 1/10, 1/2]" and n = 2 and v = "[]" and p = 0 and f = "[]"]
  by (auto simp: nonzero_def)

text \<open>
  C4 fails on the code where a feature vector is zero: with the pool \<open>[0.9, 0.1]\<close>,
  the features \<open>[0, 0]\<close> and \<open>[1, 1]\<close> and \<open>N = M = 2\<close>, the first pick is
  the candidate with the zero vector; from then on the cosine of the other candidate is
  \<open>0 / 0\<close>, its score is NaN, no score is above \<^verbatim>\<open>-inf\<close>, \<^verbatim>\<open>best_idx\<close> stays
  \<^verbatim>\<open>-1\<close>, nothing is appended and the \<^verbatim>\<open>while\<close> loop never ends.
\<close>

theorem enhance_diversity_zero_vector_diverges:
  "select_loop [9/10, 1/10] [[0, 0], [1, 1]] 2 [] = None
   \<and> enhance_diversity [9/10, 1/10] [[0, 0], [1, 1]] 2 = None"
proof -
  have b0: "best_candidate [9/10, 1/10] [[0, 0], [1, 1]] [] = Inr (Some 0)"
    by (simp add: best_candidate_def candidate_score_def calculate_diversity_def
        lambda_param_def upt_rec)
  have b1: "best_candidate [9/10, 1/10] [[0, 0], [1, 1]] [0] = Inr None"
    by (simp add: best_candidate_def candidate_score_def calculate_diversity_def
        lambda_param_def upt_rec cosine_def norm2_def dot_def np_mean_def fl_sum_def fl_sub_def)
  have "select_loop [9/10, 1/10] [[0, 0], [1, 1]] 2 []
      = select_loop [9/10, 1/10] [[0, 0], [1, 1]] 2 [0]"
    by (subst select_loop.simps) (simp add: b0)
  also have "\<dots> = None" by (rule select_loop_stuck[OF b1]) simp
  finally show ?thesis by (simp add: enhance_diversity_def)
qed

section \<open>Recommendation model: confidence normalisation\<close>

lemma fl_max2_cases:
  "fl_max2 a b = Fin z \<Longrightarrow>
     (a = NegInf \<or> (\<exists>x. a = Fin x \<and> x \<le> z)) \<and> (b = NegInf \<or> (\<exists>x. b = Fin x \<and> x \<le> z))"
  by (cases a; cases b) (auto split: if_splits)

lemma fl_max2_NegInf: "fl_max2 a b = NegInf \<Longrightarrow> a = NegInf \<and> b = NegInf"
  by (cases a; cases b) (auto split: if_splits)

lemma np_max_bound:
  "(np_max xs = NegInf \<longrightarrow> (\<forall>c\<in>set xs. c = NegInf))
   \<and> (np_max xs = Fin z \<longrightarrow> (\<forall>c\<in>set xs. c = NegInf \<or> (\<exists>x. c = Fin x \<and> x \<le> z)))"
proof (induction xs arbitrary: z rule: np_max.induct)
  case 1
  then show ?case by simp
next
  case (2 a)
  then show ?case by simp
next
  case (3 a b bs)
  have IH1: "np_max (b # bs) = NegInf \<Longrightarrow> \<forall>c\<in>set (b # bs). c = NegInf"
    using "3.IH"[of 0] by (rule conjunct1[THEN mp])
  have IH2: "\<And>y. np_max (b # bs) = Fin y \<Longrightarrow>
      \<forall>c\<in>set (b # bs). c = NegInf \<or> (\<exists>x. c = Fin x \<and> x \<le> y)"
    using "3.IH" by (rule conjunct2[THEN mp])
  have unfold: "np_max (a # b # bs) = fl_max2 a (np_max (b # bs))" by simp
  show ?case
  proof (intro conjI impI)
    assume "np_max (a # b # bs) = NegInf"
    then have "fl_max2 a (np_max (b # bs)) = NegInf" by (simp only: unfold)
    then have "a = NegInf" "np_max (b # bs) = NegInf" by (auto dest: fl_max2_NegInf)
    with IH1 show "\<forall>c\<in>set (a # b # bs). c = NegInf" by simp
  next
    assume "np_max (a # b # bs) = Fin z"
    then have m: "fl_max2 a (np_max (b # bs)) = Fin z" by (simp only: unfold)
    from fl_max2_cases[OF m] have a: "a = NegInf \<or> (\<exists>x. a = Fin x \<and> x \<le> z)"
      and r: "np_max (b # bs) = NegInf \<or> (\<exists>x. np_max (b # bs) = Fin x \<and> x \<le> z)"
      by simp_all
    have rest: "\<forall>c\<in>set (b # bs). c = NegInf \<or> (\<exists>x. c = Fin x \<and> x \<le> z)"
    proof
      fix c assume c: "c \<in> set (b # bs)"
      from r show "c = NegInf \<or> (\<exists>x. c = Fin x \<and> x \<le> z)"
      proof
        assume "np_max (b # bs) = NegInf"
        from IH1[OF this] c show ?thesis by blast
      next
        assume "\<exists>x. np_max (b # bs) = Fin x \<and> x \<le> z"
        then obtain y where y: "np_max (b # bs) = Fin y" "y \<le> z" by blast
        from IH2[OF y(1)] c have "c = NegInf \<or> (\<exists>x. c = Fin x \<and> x \<le> y)" by blast
        with y(2) show ?thesis by force
      qed
    qed
    show "\<forall>c\<in>set (a # b # bs). c = NegInf \<or> (\<exists>x. c = Fin x \<and> x \<le> z)"
    proof
      fix c assume "c \<in> set (a # b # bs)"
      then have "c = a \<or> c \<in> set (b # bs)" by simp
      with a rest show "c = NegInf \<or> (\<exists>x. c = Fin x \<and> x \<le> z)" by blast
    qed
  qed
qed

lemma div_by_zero_max_not_finite:
  assumes "np_max xs = Fin 0" "c \<in> set xs"
  shows "\<not> is_Fin (fl_div c (Fin 0))"
proof -
  from np_max_bound[of xs 0] assms have "c = NegInf \<or> (\<exists>x. c = Fin x \<and> x \<le> 0)" by auto
  then show ?thesis by (auto simp: signed_inf_def split: if_splits)
qed


lemma example_scores: "confidence_scores [1, 1] [[0, 0], [0, 0]] = [Fin 0, Fin 0]"
proof -
  have std: "np_std [1, 1] = Fin 0" by (simp add: np_std_def)
  have mean: "np_mean [Fin 0, Fin 0] = Fin 0" by (simp add: np_mean_def fl_sum_def)
  show ?thesis by (simp add: confidence_scores_def std mean fl_sub_def Let_def)
qed

text \<open>
  What \<^verbatim>\<open>_calculate_confidence\<close> does with the batch maximum: for every batch with at
  least one feature row it raises nothing and returns the scores divided by their
  maximum, whatever the maximum is; when the maximum is 0 no entry of the result is a
  finite number (each is NaN or an infinity).
\<close>

theorem calculate_confidence_unguarded:
  assumes "features \<noteq> []"
  shows "calculate_confidence predictions features
           = Inr (map (\<lambda>c. fl_div c (np_max (confidence_scores predictions features)))
                   (confidence_scores predictions features))
       \<and> (np_max (confidence_scores predictions features) = Fin 0 \<longrightarrow>
            list_all (\<lambda>c. \<not> is_Fin c)
              (map (\<lambda>c. fl_div c (np_max (confidence_scores predictions features)))
                 (confidence_scores predictions features)))"
proof -
  have "confidence_scores predictions features \<noteq> []"
    using assms by (simp add: confidence_scores_def Let_def)
  then show ?thesis
    using div_by_zero_max_not_finite[of "confidence_scores predictions features"]
    by (auto simp: calculate_confidence_def Let_def list_all_iff)
qed

theorem calculate_confidence_unguarded_witness:
  "[[0, 0], [0, 0]] \<noteq> ([] :: matrix)
   \<and> np_max (confidence_scores [1, 1] [[0, 0], [0, 0]]) = Fin 0
   \<and> calculate_confidence [1, 1] [[0, 0], [0, 0]]
        = Inr (map (\<lambda>c. fl_div c (Fin 0)) [Fin 0, Fin 0])
   \<and> list_all (\<lambda>c. \<not> is_Fin c) (map (\<lambda>c. fl_div c (Fin 0)) [Fin 0, Fin 0])"
  using calculate_confidence_unguarded [of "[[0, 0], [0, 0]]" "[1, 1]"]
  by (simp add: example_scores)

text \<open>
  C8 fails on the code: \<^verbatim>\<open>_calculate_confidence\<close> divides by the batch maximum
  without looking at it. For a batch whose maximum confidence score is 0 (two equal
  predictions, two zero feature rows) the division is carried out, every entry of the
  result is NaN, where the line's own comment says \<^verbatim>\<open>Normalize to [0,1]\<close>, and
  nothing is raised or reported.
\<close>

theorem calculate_confidence_zero_max_returns_nan:
  "np_max (confidence_scores [1, 1] [[0, 0], [0, 0]]) = Fin 0
   \<and> calculate_confidence [1, 1] [[0, 0], [0, 0]] = Inr [NaN, NaN]"
  by (simp add: calculate_confidence_def example_scores)

section \<open>Recommendation model: the training target\<close>

lemma transform_categorical_last:
  assumes "transform_categorical lib f names tr = Inr cols"
  shows "length cols = length (filter (\<lambda>name. map_of f (Name name) \<noteq> None) names)
       \<and> (cols \<noteq> [] \<longrightarrow>
            (\<exists>enc col. map_of (categorical tr) (last (filter (\<lambda>name. map_of f (Name name) \<noteq> None) names)) = Some enc
               \<and> map_of f (Name (last (filter (\<lambda>name. map_of f (Name name) \<noteq> None) names))) = Some col
               \<and> encoder_transform lib enc col = Inr (last cols)))"
  using assms
proof (induction names arbitrary: cols)
  case Nil
  then show ?case by simp
next
  case (Cons name names)
  show ?case
  proof (cases "map_of f (Name name)")
    case None
    with Cons show ?thesis by simp
  next
    case (Some c)
    with Cons.prems obtain enc col rest where
      enc: "map_of (categorical tr) name = Some enc"
      and col: "encoder_transform lib enc c = Inr col"
      and rest: "transform_categorical lib f names tr = Inr rest"
      and cols: "cols = col # rest"
      by (auto split: option.splits sum.splits)
    from Cons.IH[OF rest] Some enc col cols show ?thesis
      by (cases "rest = []") auto
  qed
qed

lemma hstack_last:
  assumes "hstack numerical_data cols = Inr processed"
  shows "last_column processed = Inr (last cols)
       \<and> processed = map2 (\<lambda>x t. x @ [t]) (all_but_last_column processed) (last cols)
       \<and> cols \<noteq> []"
proof -
  from assms have ne: "cols \<noteq> []" and len: "\<forall>c\<in>set cols. length c = length numerical_data"
    and p: "processed = map (\<lambda>i. numerical_data ! i @ map (\<lambda>c. c ! i) cols) [0..<length numerical_data]"
    by (auto simp: hstack_def list_ex_iff split: if_splits)
  from ne obtain bs l where cols: "cols = bs @ [l]" by (cases cols rule: rev_cases) auto
  have l: "length l = length numerical_data" using len cols by simp
  have lp: "length processed = length numerical_data" using p by simp
  have rows: "\<And>i. i < length numerical_data \<Longrightarrow>
      processed ! i = (numerical_data ! i @ map (\<lambda>c. c ! i) bs) @ [l ! i]"
    using p cols by simp
  have last: "map last processed = l"
  proof (rule nth_equalityI)
    show "length (map last processed) = length l" using lp l by simp
  next
    fix i assume "i < length (map last processed)"
    then have "i < length numerical_data" using lp by simp
    then show "map last processed ! i = l ! i" using rows[of i] lp by simp
  qed
  have nonempty: "\<not> list_ex (\<lambda>row. row = []) processed"
  proof
    assume "list_ex (\<lambda>row. row = []) processed"
    then obtain i where "i < length processed" "processed ! i = []"
      by (auto simp: list_ex_iff in_set_conv_nth)
    with rows[of i] lp show False by simp
  qed
  have split: "processed = map2 (\<lambda>x t. x @ [t]) (map butlast processed) l"
  proof (rule nth_equalityI)
    show "length processed = length (map2 (\<lambda>x t. x @ [t]) (map butlast processed) l)"
      using lp l by simp
  next
    fix i assume i: "i < length processed"
    then have "i < length numerical_data" using lp by simp
    from rows[OF this] i lp l
    show "processed ! i = map2 (\<lambda>x t. x @ [t]) (map butlast processed) l ! i"
      by (simp add: butlast_append)
  qed
  from last nonempty split ne cols show ?thesis
    by (simp add: last_column_def all_but_last_column_def)
qed

lemma transform_recommendation_target:
  assumes "transform_recommendation lib f tr = Inr processed"
  shows "\<exists>y. encoded_last_categorical lib tr f y \<and> last_column processed = Inr y
           \<and> processed = map2 (\<lambda>x t. x @ [t]) (all_but_last_column processed) y"
proof -
  from assms obtain numerical_data cols where
    tc: "transform_categorical lib f CATEGORICAL_FEATURES tr = Inr cols"
    and hs: "hstack numerical_data cols = Inr processed"
    by (auto simp: transform_recommendation_def split: sum.splits)
  from hstack_last[OF hs] have ne: "cols \<noteq> []" and lc: "last_column processed = Inr (last cols)"
    and sp: "processed = map2 (\<lambda>x t. x @ [t]) (all_but_last_column processed) (last cols)" by auto
  from transform_categorical_last[OF tc] ne
  have "encoded_last_categorical lib tr f (last cols)"
    by (auto simp: encoded_last_categorical_def present_categorical_def)
  with lc sp show ?thesis by blast
qed

lemma content_converted:
  "validate_and_convert_input Recommendation data = Inr data' \<Longrightarrow> content data' = content data"
  by (cases data) auto

lemma fit_transform_recommendation:
  assumes "dp_model_type dp = Recommendation"
      and "fit_transform lib now dp data = (Inr processed, pre)"
  shows "transform_recommendation lib (content data) (dp_transformers pre) = Inr processed"
  using assms
  by (auto simp: fit_transform_def Let_def process_recommendation_data_def content_converted
      split: sum.splits prod.splits if_splits)

lemma transform_recommendation_kind:
  assumes "dp_model_type dp = Recommendation"
      and "transform lib dp data = (Inr processed, pre)"
  shows "transform_recommendation lib (content data) (dp_transformers pre) = Inr processed"
  using assms
  by (auto simp: transform_def Let_def process_recommendation_data_def content_converted
      split: sum.splits prod.splits if_splits)


text \<open>
  C10: \<^verbatim>\<open>RecommendationModel.train\<close> and \<^verbatim>\<open>update\<close> have no label argument.
  When the preprocessing of the call succeeds with the matrix \<open>processed\<close>, the
  predictor is fitted on the columns of \<open>processed\<close> before the last as features and on
  its last column \<open>y\<close> as target, and \<open>y\<close> is the encoding of the last categorical
  feature the data has, by that feature's fitted encoder: the weights the model holds
  after the call are those that \<^verbatim>\<open>self.model.fit\<close> returns for these two arguments
  (with the caller's epochs and batch size in \<^verbatim>\<open>train\<close>, five epochs and
  \<^verbatim>\<open>BATCH_SIZE\<close> in \<^verbatim>\<open>update\<close>), and when that fit raises, the call raises
  RuntimeError with its message and the weights stay.
\<close>

theorem training_target_is_last_column:
  assumes "dp_model_type (rm_preprocessor m) = Recommendation"
  shows "(fst (fit_transform lib now (rm_preprocessor m) data) = Inr processed \<longrightarrow>
            (\<exists>y. encoded_last_categorical lib
                   (dp_transformers (snd (fit_transform lib now (rm_preprocessor m) data)))
                   (content data) y
               \<and> processed = map2 (\<lambda>x t. x @ [t]) (all_but_last_column processed) y
               \<and> (case keras_fit lib (rm_weights m) (all_but_last_column processed) (A1 y)
                          epochs batch_size of
                    Inl e \<Rightarrow>
                      fst (rec_train lib now m data epochs batch_size)
                        = Inl (Exc RuntimeError (''Model training failed: '' @ str_exn e))
                      \<and> rm_weights (snd (rec_train lib now m data epochs batch_size))
                          = rm_weights m
                      \<and> is_trained (snd (rec_train lib now m data epochs batch_size))
                          = is_trained m
                  | Inr (h, w) \<Rightarrow>
                      rm_weights (snd (rec_train lib now m data epochs batch_size)) = w
                      \<and> is_trained (snd (rec_train lib now m data epochs batch_size))
                      \<and> rm_training_iterations (snd (rec_train lib now m data epochs batch_size))
                          = rm_training_iterations m + 1
                      \<and> fst (rec_train lib now m data epochs batch_size)
                          = (case collect_metrics h recommendation_metric_keys of
                               Inl e \<Rightarrow>
                                 Inl (Exc RuntimeError (''Model training failed: '' @ str_exn e))
                             | Inr metrics \<Rightarrow> Inr metrics))))
       \<and> (fst (transform lib (rm_preprocessor m) data) = Inr processed' \<longrightarrow>
            (\<exists>y. encoded_last_categorical lib
                   (dp_transformers (snd (transform lib (rm_preprocessor m) data)))
                   (content data) y
               \<and> processed' = map2 (\<lambda>x t. x @ [t]) (all_but_last_column processed') y
               \<and> (case keras_fit lib (rm_weights m) (all_but_last_column processed') (A1 y)
                          5 BATCH_SIZE of
                    Inl e \<Rightarrow>
                      fst (rec_update lib now m data)
                        = Inl (Exc RuntimeError (''Model update failed: '' @ str_exn e))
                      \<and> rm_weights (snd (rec_update lib now m data)) = rm_weights m
                  | Inr (h, w) \<Rightarrow>
                      rm_weights (snd (rec_update lib now m data)) = w
                      \<and> fst (rec_update lib now m data)
                          = (case update_metrics h now of
                               Inl e \<Rightarrow>
                                 Inl (Exc RuntimeError (''Model update failed: '' @ str_exn e))
                             | Inr um \<Rightarrow> Inr um))))"
  apply (intro conjI impI)
  subgoal premises a
  proof -
    obtain pre where ft: "fit_transform lib now (rm_preprocessor m) data = (Inr processed, pre)"
      using a by (cases "fit_transform lib now (rm_preprocessor m) data") auto
    have pre: "snd (fit_transform lib now (rm_preprocessor m) data) = pre"
      by (simp add: ft)
    from transform_recommendation_target[OF fit_transform_recommendation[OF assms ft]]
    obtain y where y: "encoded_last_categorical lib (dp_transformers pre) (content data) y"
      "last_column processed = Inr y"
      "processed = map2 (\<lambda>x t. x @ [t]) (all_but_last_column processed) y" by blast
    show ?thesis
      unfolding pre
      apply (rule exI[of _ y])
      apply (intro conjI)
        apply (rule y(1))
       apply (rule y(3))
      apply (simp add: rec_train_def Let_def ft y(2) split: sum.splits prod.splits)
      done
  qed
  subgoal premises a
  proof -
    obtain pre where tr: "transform lib (rm_preprocessor m) data = (Inr processed', pre)"
      using a by (cases "transform lib (rm_preprocessor m) data") auto
    have pre: "snd (transform lib (rm_preprocessor m) data) = pre"
      by (simp add: tr)
    from transform_recommendation_target[OF transform_recommendation_kind[OF assms tr]]
    obtain y where y: "encoded_last_categorical lib (dp_transformers pre) (content data) y"
      "last_column processed' = Inr y"
      "processed' = map2 (\<lambda>x t. x @ [t]) (all_but_last_column processed') y" by blast
    show ?thesis
      unfolding pre
      apply (rule exI[of _ y])
      apply (intro conjI)
        apply (rule y(1))
       apply (rule y(3))
      apply (simp add: rec_update_def Let_def tr y(2) split: sum.splits prod.splits)
      done
  qed
  done

lemma example_fit_transform_frame:
  "fit_transform recording_lib ''2024-03-03T00:00:00'' fitted_preprocessor (FrameIn example_frame)
     = (Inr [[100, 7, 2, 0, 0], [300, 3, 4, 1, 0]],
        fitted_preprocessor\<lparr>
          preprocessor_state := PDict [(''model_type'', PStr ''recommendation''),
            (''created_at'', PStr ''2024-01-01T00:00:00''), (''version'', PStr ''1.0.0''),
            (''last_updated'', PStr ''2024-03-03T00:00:00''),
            (''statistics'', PDict [(''sample_count'', PInt 2),
               (''timestamp'', PStr ''2024-03-03T00:00:00''),
               (''numerical_features'', PDict [(''budget'', PDict []), (''duration'', PDict []),
                  (''group_size'', PDict [])])])],
          dp_transformers :=
            \<lparr>numerical = StandardScaler (Some [(0, 1), (0, 1), (0, 1)]),
             categorical = [(''destination_type'', LabelEncoder (Some [Txt ''beach'', Txt ''city''])),
                            (''travel_style'', LabelEncoder (Some [Txt ''luxury'']))],
             text_tokenizer = Some (Tokenizer MAX_VOCAB_SIZE None)\<rparr>\<rparr>)"
  by (simp add: fit_transform_def fitted_preprocessor_def example_frame_def recording_lib_def
      example_lib_def update_statistics_def
      process_recommendation_data_def transform_recommendation_def NUMERICAL_FEATURES_def
      CATEGORICAL_FEATURES_def frame_col_def hstack_def nrows_def upt_rec)

lemma example_transform_frame:
  "transform recording_lib fitted_preprocessor (FrameIn example_frame)
     = (Inr [[100, 7, 2, 1, 1], [300, 3, 4, 0, 1]], fitted_preprocessor)"
  by (simp add: transform_def fitted_preprocessor_def example_frame_def recording_lib_def
      example_lib_def process_recommendation_data_def transform_recommendation_def
      NUMERICAL_FEATURES_def CATEGORICAL_FEATURES_def frame_col_def hstack_def nrows_def upt_rec)

theorem training_target_is_last_column_witness:
  "dp_model_type (rm_preprocessor example_recommender) = Recommendation
   \<and> fst (fit_transform recording_lib ''2024-03-03T00:00:00''
            (rm_preprocessor example_recommender) (FrameIn example_frame))
       = Inr [[100, 7, 2, 0, 0], [300, 3, 4, 1, 0]]
   \<and> rm_weights (snd (rec_train recording_lib ''2024-03-03T00:00:00'' example_recommender
                       (FrameIn example_frame) 2 32))
       = [0, 0] @ [100, 7, 2, 0, 300, 3, 4, 1]
   \<and> fst (transform recording_lib (rm_preprocessor example_recommender) (FrameIn example_frame))
       = Inr [[100, 7, 2, 1, 1], [300, 3, 4, 0, 1]]
   \<and> rm_weights (snd (rec_update recording_lib ''2024-03-03T00:00:00'' example_recommender
                       (FrameIn example_frame)))
       = [1, 1] @ [100, 7, 2, 1, 300, 3, 4, 0]"
proof -
  have k: "dp_model_type (rm_preprocessor example_recommender) = Recommendation"
    and p: "rm_preprocessor example_recommender = fitted_preprocessor"
    by (simp_all add: example_recommender_def fitted_preprocessor_def)
  have f: "keras_fit recording_lib
      = (\<lambda>w x y e b. Inr (example_history, flat y @ concat x))"
    and enc: "encoder_transform recording_lib = example_encode"
    by (simp_all add: recording_lib_def example_lib_def)
  have c: "content (FrameIn example_frame) = example_frame" by simp
  have pc: "present_categorical example_frame = [''destination_type'', ''travel_style'']"
    by (simp add: present_categorical_def example_frame_def CATEGORICAL_FEATURES_def)
  have col: "map_of example_frame (Name ''travel_style'') = Some [Txt ''luxury'', Txt ''luxury'']"
    by (simp add: example_frame_def)
  have e1: "\<And>y. encoded_last_categorical recording_lib
        \<lparr>numerical = StandardScaler (Some [(0, 1), (0, 1), (0, 1)]),
         categorical = [(''destination_type'', LabelEncoder (Some [Txt ''beach'', Txt ''city''])),
                        (''travel_style'', LabelEncoder (Some [Txt ''luxury'']))],
         text_tokenizer = Some (Tokenizer MAX_VOCAB_SIZE None)\<rparr> example_frame y
      \<longleftrightarrow> y = [0, 0]"
    by (auto simp: encoded_last_categorical_def pc col enc)
  have e2: "\<And>y. encoded_last_categorical recording_lib
        (dp_transformers fitted_preprocessor) example_frame y \<longleftrightarrow> y = [1, 1]"
    by (auto simp: encoded_last_categorical_def pc col enc fitted_preprocessor_def)
  from training_target_is_last_column [OF k, where lib = recording_lib
      and now = "''2024-03-03T00:00:00''" and data = "FrameIn example_frame"
      and processed = "[[100, 7, 2, 0, 0], [300, 3, 4, 1, 0]]"
      and processed' = "[[100, 7, 2, 1, 1], [300, 3, 4, 0, 1]]"
      and epochs = 2 and batch_size = 32]
  show ?thesis
    by (simp add: p c e1 e2 f example_fit_transform_frame example_transform_frame
        all_but_last_column_def)
       (simp add: fitted_preprocessor_def)
qed
section \<open>Model trainer: what the writes of save\_model leave alone\<close>

lemma apart_under: "apart t q \<Longrightarrow> prefix t p \<Longrightarrow> apart p q"
  unfolding apart_def
  by (meson prefix_order.trans prefix_same_cases)

lemma lookup_empty_dir: "lookup (Dir []) q = (if q = [] then Some (Dir []) else None)"
  by (cases q) auto

lemma lookup_set_at_other:
  "\<not> prefix p q \<Longrightarrow> \<not> prefix q p \<Longrightarrow> lookup (set_at n p v) q = lookup n q"
proof (induction n p v arbitrary: q rule: set_at.induct)
  case (3 es c v)
  then show ?case
    by (cases q) (auto simp: update_conv' delete_conv' split: option.splits)
next
  case (4 es c v va vb)
  then show ?case
    by (cases q) (auto simp: update_conv' split: option.splits)
qed auto

lemma lookup_makedirs_other:
  "makedirs n p = Inr n' \<Longrightarrow> \<not> prefix q p \<Longrightarrow> lookup n' q = lookup n q"
proof (induction n p arbitrary: q n' rule: makedirs.induct)
  case (4 es c p)
  then show ?case
    by (cases q) (auto simp: update_conv' lookup_empty_dir split: option.splits sum.splits)
qed auto

lemma os_makedirs_frame:
  "apart p q \<Longrightarrow> lookup (snd (os_makedirs flt p fs)) q = lookup fs q"
  by (auto simp: os_makedirs_def apart_def lookup_makedirs_other split: outcome.splits sum.splits)

lemma write_file_frame:
  "apart p q \<Longrightarrow> lookup (snd (write_file flt p b fs)) q = lookup fs q"
  by (auto simp: write_file_def apart_def lookup_set_at_other
      split: outcome.splits option.splits node.splits)

lemma save_state_frame:
  assumes "apart t q" "prefix t p"
  shows "lookup (snd (save_state flt dp p fs)) q = lookup fs q"
proof -
  have a: "apart p q" "apart (p @ [''preprocessor_state.json'']) q"
    "apart (p @ [''transformers.pkl'']) q" "apart (p @ [''cache.json'']) q"
    using assms by (auto intro: apart_under prefix_order.trans)
  show ?thesis
    unfolding save_state_def
    using os_makedirs_frame[OF a(1), of flt] write_file_frame[OF a(2), of flt]
      write_file_frame[OF a(3), of flt] write_file_frame[OF a(4), of flt]
    by (auto split: prod.splits sum.splits) (metis snd_conv)+
qed


lemma persona_save_frame:
  assumes "apart t q" "prefix t p"
  shows "lookup (snd (persona_save flt m p fs)) q = lookup fs q"
proof -
  have a: "apart p q" "apart (p @ [''model'']) q" "apart (p @ [''model_state.npy'']) q"
    using assms by (auto intro: apart_under prefix_order.trans)
  have pp: "prefix t (p @ [''preprocessor''])" using assms(2) by (auto intro: prefix_order.trans)
  show ?thesis
    unfolding persona_save_def Let_def
    using os_makedirs_frame[OF a(1), of flt] write_file_frame[OF a(2), of flt]
      write_file_frame[OF a(3), of flt] save_state_frame[OF assms(1) pp, of flt]
    by (auto split: prod.splits sum.splits) (metis snd_conv)+
qed

lemma model_save_frame:
  assumes "apart t q" "prefix t p"
  shows "lookup (snd (model_save flt mo p fs)) q = lookup fs q"
proof (cases mo)
  case (RecModel r)
  then show ?thesis by simp
next
  case (PerModel m)
  then show ?thesis
    using persona_save_frame[OF assms, of flt m fs]
    by (cases "persona_save flt m p fs") simp
qed

lemma write_bundle_frame:
  assumes "apart tmp q"
  shows "lookup (snd (write_bundle flt now mt version tmp fs)) q = lookup fs q"
proof -
  have a: "apart (tmp @ [''metadata.npy'']) q"
    using assms by (auto intro: apart_under)
  have p1: "prefix tmp (tmp @ [''model''])" and p2: "prefix tmp (tmp @ [''preprocessor''])" by auto
  show ?thesis
    unfolding write_bundle_def
    using os_makedirs_frame[OF assms, of flt] write_file_frame[OF a, of flt]
      model_save_frame[OF assms p1, of flt] save_state_frame[OF assms p2, of flt]
    by (auto split: prod.splits sum.splits) (metis snd_conv)+
qed

lemma temp_ne_final: "''temp_'' @ v \<noteq> v"
  by (auto dest: arg_cong[where f = length])

lemma temp_ne_backup: "''temp_'' @ v \<noteq> v @ ''_backup''"
  by (auto dest: arg_cong[where f = length])

lemma final_ne_backup: "v \<noteq> v @ ''_backup''"
  by (auto dest: arg_cong[where f = length])

lemma paths_apart:
  "apart (temp_path M v) (final_path M v)"
  "apart (temp_path M v) (backup_path M v)"
  "apart (final_path M v) (backup_path M v)"
  using temp_ne_final[of v] temp_ne_backup[of v] final_ne_backup[of v]
  by (auto simp: apart_def temp_path_def final_path_def backup_path_def)



lemmas save_model_defs =
  save_model_def write_bundle_def install_bundle_def persona_save_def save_state_def
  os_makedirs_def write_file_def os_rename_def os_remove_def os_path_exists_def
  temp_path_def final_path_def backup_path_def







section \<open>Model trainer: saving over an existing bundle\<close>

lemma lookup_append:
  "lookup fs (p @ r) = (case lookup fs p of None \<Rightarrow> None | Some n \<Rightarrow> lookup n r)"
proof (induction fs p rule: lookup.induct)
  case (2 b c p)
  then show ?case by simp
qed (auto split: option.splits)

lemma lookup_set_at_same:
  "p \<noteq> [] \<Longrightarrow> lookup fs (butlast p) = Some (Dir es) \<Longrightarrow> lookup (set_at fs p v) p = v"
proof (induction fs p v arbitrary: es rule: set_at.induct)
  case (3 es c v)
  then show ?case by (auto simp: update_conv' delete_conv' split: option.splits)
next
  case (4 es c v va vb)
  then show ?case by (auto simp: update_conv' split: option.splits)
qed (auto split: if_splits)

lemma set_at_keeps_dir:
  "lookup fs p = Some (Dir es) \<Longrightarrow> strict_prefix p q \<Longrightarrow> \<exists>es'. lookup (set_at fs q v) p = Some (Dir es')"
proof (induction fs q v arbitrary: p es rule: set_at.induct)
  case (1 n v)
  then show ?case by simp
next
  case (2 b c p v)
  then show ?case by (cases p) auto
next
  case (3 es c v)
  then show ?case by (cases p) (auto simp: update_conv' delete_conv' split: option.splits)
next
  case (4 es c v va vb)
  then show ?case
    by (cases p) (auto simp: update_conv' split: option.splits)
qed

lemma write_file_success:
  assumes "write_file flt p b fs = (Inr u, fs')"
  shows "lookup fs' p = Some (File b) \<and> (\<exists>es. lookup fs' (butlast p) = Some (Dir es))"
proof -
  from assms have ne: "p \<noteq> []" by (auto simp: write_file_def split: if_splits)
  from assms ne obtain es where par: "lookup fs (butlast p) = Some (Dir es)"
    by (auto simp: write_file_def split: option.splits node.splits)
  from assms ne par have fs': "fs' = set_at fs p (Some (File b))"
    by (auto simp: write_file_def split: option.splits node.splits outcome.splits)
  have "strict_prefix (butlast p) p" using ne
    by (metis append_butlast_last_id strict_prefixI' )
  from set_at_keeps_dir[OF par this] lookup_set_at_same[OF ne par] fs' show ?thesis by auto
qed

lemma write_bundle_success:
  assumes "write_bundle flt now mt version tmp fs = (Inr u, fs1)"
  shows "lookup fs1 (tmp @ [''metadata.npy'']) = Some (File (NpyBlob (bundle_metadata mt version now)))
       \<and> (\<exists>es. lookup fs1 tmp = Some (Dir es))"
  using assms write_file_success[of flt "tmp @ [''metadata.npy'']"]
  by (auto simp: write_bundle_def split: prod.splits sum.splits if_splits)


lemma parent_is_dir:
  "lookup fs (p @ [c]) = Some n \<Longrightarrow> \<exists>es. lookup fs p = Some (Dir es)"
  by (auto simp: lookup_append split: option.splits node.splits) (case_tac x2, auto)

lemma os_rename_dir:
  assumes src: "lookup fs (M @ [a]) = Some s"
      and ne: "a \<noteq> b"
      and ok: "rename_allowed s (lookup fs (M @ [b])) = Inr ()"
  shows "fst (os_rename no_faults (M @ [a]) (M @ [b]) fs) = Inr ()
       \<and> lookup (snd (os_rename no_faults (M @ [a]) (M @ [b]) fs)) (M @ [b]) = Some s
       \<and> lookup (snd (os_rename no_faults (M @ [a]) (M @ [b]) fs)) (M @ [a]) = None
       \<and> (\<forall>q. apart (M @ [a]) q \<and> apart (M @ [b]) q \<longrightarrow>
             lookup (snd (os_rename no_faults (M @ [a]) (M @ [b]) fs)) q = lookup fs q)"
proof -
  from parent_is_dir[OF src] obtain es where par: "lookup fs M = Some (Dir es)" by auto
  let ?fs1 = "set_at fs (M @ [a]) None"
  let ?fs2 = "set_at ?fs1 (M @ [b]) (Some s)"
  have r: "os_rename no_faults (M @ [a]) (M @ [b]) fs = (Inr (), ?fs2)"
    using src ne ok par by (simp add: os_rename_def no_faults_def)
  have sp: "strict_prefix M (M @ [a])" "strict_prefix M (M @ [b])" by (simp_all add: strict_prefix_def)
  from set_at_keeps_dir[OF par sp(1), of None] obtain es1 where par1: "lookup ?fs1 M = Some (Dir es1)" by auto
  have ap: "apart (M @ [b]) (M @ [a])" using ne by (auto simp: apart_def)
  have b: "lookup ?fs2 (M @ [b]) = Some s"
    using lookup_set_at_same[of "M @ [b]" ?fs1 es1 "Some s"] par1 by simp
  have "lookup ?fs1 (M @ [a]) = None"
    using lookup_set_at_same[of "M @ [a]" fs es None] par by simp
  then have a: "lookup ?fs2 (M @ [a]) = None"
    using lookup_set_at_other[of "M @ [b]" "M @ [a]" ?fs1 "Some s"] ap by (simp add: apart_def)
  have fr: "\<forall>q. apart (M @ [a]) q \<and> apart (M @ [b]) q \<longrightarrow> lookup ?fs2 q = lookup fs q"
    by (auto simp: apart_def lookup_set_at_other)
  show ?thesis using r a b fr by simp
qed


text \<open>
  C9: when a bundle (a directory) is at the final version path, every write of the new
  bundle succeeds and both renames succeed (nothing but an empty directory is in the way
  of the backup, and the environment fails no operation), \<^verbatim>\<open>save_model\<close> returns
  \<^verbatim>\<open>False\<close>: the last step, \<^verbatim>\<open>os.remove\<close> of the backup directory, raises
  IsADirectoryError. The old bundle stays at \<^verbatim>\<open><version>_backup\<close>, and the final
  version path holds the new bundle as it was written, its metadata included.
\<close>

theorem save_model_over_existing:
  assumes "valid_version version"
      and "lookup fs (final_path M version) = Some (Dir old)"
      and "fst (write_bundle no_faults now mt version (temp_path M version) fs) = Inr ()"
      and "rename_allowed (Dir old) (lookup fs (backup_path M version)) = Inr ()"
  shows "fst (save_model no_faults M now mt version fs) = False
       \<and> fst (install_bundle no_faults (temp_path M version) (final_path M version)
               (backup_path M version)
               (snd (write_bundle no_faults now mt version (temp_path M version) fs)))
           = Inl (Exc IsADirectoryError ''Is a directory'')
       \<and> lookup (snd (save_model no_faults M now mt version fs)) (backup_path M version)
           = Some (Dir old)
       \<and> lookup (snd (save_model no_faults M now mt version fs)) (final_path M version)
           = lookup (snd (write_bundle no_faults now mt version (temp_path M version) fs))
               (temp_path M version)
       \<and> lookup (snd (save_model no_faults M now mt version fs))
           (final_path M version @ [''metadata.npy''])
           = Some (File (NpyBlob (bundle_metadata mt version now)))"
proof -
  let ?t = "''temp_'' @ version" and ?b = "version @ ''_backup''"
  obtain fs1 where w: "write_bundle no_faults now mt version (temp_path M version) fs = (Inr (), fs1)"
    using assms(3) by (cases "write_bundle no_faults now mt version (temp_path M version) fs") auto
  note old = assms(2) and r1 = assms(4)
  have paths: "temp_path M version = M @ [?t]" "final_path M version = M @ [version]"
      "backup_path M version = M @ [?b]"
    by (simp_all add: temp_path_def final_path_def backup_path_def)
  have fr1: "\<And>q. apart (temp_path M version) q \<Longrightarrow> lookup fs1 q = lookup fs q"
    using write_bundle_frame[of "temp_path M version" _ no_faults now mt version fs] w by simp
  from write_bundle_success[OF w] obtain es where
    meta: "lookup fs1 (temp_path M version @ [''metadata.npy''])
             = Some (File (NpyBlob (bundle_metadata mt version now)))"
    and tmp: "lookup fs1 (temp_path M version) = Some (Dir es)" by auto
  have f1: "lookup fs1 (M @ [version]) = Some (Dir old)"
    using fr1[OF paths_apart(1)] old paths by simp
  have b1: "lookup fs1 (M @ [?b]) = lookup fs (M @ [?b])"
    using fr1[OF paths_apart(2)] paths by simp
  let ?r1 = "os_rename no_faults (M @ [version]) (M @ [?b]) fs1"
  have ren1: "fst ?r1 = Inr ()" "lookup (snd ?r1) (M @ [?b]) = Some (Dir old)"
      "lookup (snd ?r1) (M @ [version]) = None"
      "\<forall>q. apart (M @ [version]) q \<and> apart (M @ [?b]) q \<longrightarrow> lookup (snd ?r1) q = lookup fs1 q"
    using os_rename_dir[OF f1 final_ne_backup] r1 b1 paths by simp_all
  have ap_t: "apart (M @ [version]) (M @ [?t])" "apart (M @ [?b]) (M @ [?t])"
    using paths_apart[of M version] paths by (auto simp: apart_def)
  have t2: "lookup (snd ?r1) (M @ [?t]) = Some (Dir es)"
    using ren1(4) ap_t tmp paths by simp
  let ?r2 = "os_rename no_faults (M @ [?t]) (M @ [version]) (snd ?r1)"
  have ren2: "fst ?r2 = Inr ()" "lookup (snd ?r2) (M @ [version]) = Some (Dir es)"
      "\<forall>q. apart (M @ [?t]) q \<and> apart (M @ [version]) q \<longrightarrow> lookup (snd ?r2) q = lookup (snd ?r1) q"
    using os_rename_dir[OF t2 temp_ne_final] ren1(3) by simp_all
  have ap_b: "apart (M @ [?t]) (M @ [?b])" "apart (M @ [version]) (M @ [?b])"
    using paths_apart[of M version] paths by (auto simp: apart_def)
  have b3: "lookup (snd ?r2) (M @ [?b]) = Some (Dir old)"
    using ren2(3) ap_b ren1(2) by simp
  have inst: "install_bundle no_faults (M @ [?t]) (M @ [version]) (M @ [?b]) fs1
      = (Inl (Exc IsADirectoryError ''Is a directory''), snd ?r2)"
    using f1 ren1(1) ren2(1) b3
    by (cases ?r1; cases ?r2) (simp add: install_bundle_def os_path_exists_def os_remove_def)
  have sm: "save_model no_faults M now mt version fs = (False, snd ?r2)"
    using w inst paths by (simp add: save_model_def)
  have "lookup (snd ?r2) (M @ [version] @ [''metadata.npy''])
      = Some (File (NpyBlob (bundle_metadata mt version now)))"
    using ren2(2) meta tmp paths lookup_append[of "snd ?r2" "M @ [version]" "[''metadata.npy'']"]
      lookup_append[of fs1 "M @ [?t]" "[''metadata.npy'']"] by simp
  then show ?thesis using sm inst w b3 ren2(2) tmp paths by simp
qed

lemma example_write_bundle:
  "fst (write_bundle no_faults ''2024-02-02T00:00:00'' example_trainer ''v1''
          (temp_path [''models''] ''v1'') example_fs) = Inr ()"
  by (simp add: save_model_defs example_fs_def old_bundle_def example_trainer_def
      example_persona_def no_faults_def new_preprocessor_def bundle_metadata_def
      fitted_preprocessor_def)

theorem save_model_over_existing_witness:
  "valid_version ''v1''
   \<and> lookup example_fs (final_path [''models''] ''v1'') = Some old_bundle
   \<and> fst (save_model no_faults [''models''] ''2024-02-02T00:00:00'' example_trainer ''v1''
          example_fs) = False
   \<and> lookup (snd (save_model no_faults [''models''] ''2024-02-02T00:00:00'' example_trainer
                 ''v1'' example_fs)) (backup_path [''models''] ''v1'')
      = Some old_bundle
   \<and> lookup (snd (save_model no_faults [''models''] ''2024-02-02T00:00:00'' example_trainer
                 ''v1'' example_fs)) (final_path [''models''] ''v1'' @ [''metadata.npy''])
      = Some (File (NpyBlob (bundle_metadata example_trainer ''v1'' ''2024-02-02T00:00:00'')))"
proof -
  have v: "valid_version ''v1''" by (simp add: valid_version_def)
  have o: "lookup example_fs (final_path [''models''] ''v1'')
      = Some (Dir [(''metadata.npy'', File (NpyBlob (PDict [(''version'', PStr ''v1'')])))])"
    by (simp add: example_fs_def old_bundle_def final_path_def)
  have r: "rename_allowed (Dir [(''metadata.npy'', File (NpyBlob (PDict [(''version'', PStr ''v1'')])))])
      (lookup example_fs (backup_path [''models''] ''v1'')) = Inr ()"
    by (simp add: example_fs_def old_bundle_def backup_path_def)
  from save_model_over_existing [OF v o example_write_bundle r] v o
  show ?thesis by (simp add: old_bundle_def)
qed

end
